theory Spec2Isabelle
  imports Complex_Main
begin

section \<open>The TerraMind microservice (terramind-service/app.py)\<close>

text \<open>
  A shallow embedding of the request handler of \<^verbatim>\<open>app.py\<close> and of the helpers of
  \<^verbatim>\<open>TerraMindProcessor\<close>. Python floats and ints are modelled by \<open>real\<close> and
  \<open>int\<close>: rounding to IEEE doubles, NaN and the infinities are outside the model; where
  Python raises \<^verbatim>\<open>OverflowError\<close> because a result is too large for a double, so does the
  model. The distance test of \<^verbatim>\<open>is_urban_area\<close> and \<^verbatim>\<open>is_coastal_area\<close>, where a rounding
  error can decide the answer at the edge of a radius, is given a second time with the
  float operations of the platform as a parameter. Everything the service reads from its surroundings (the random generator of
  numpy, the clock, the logger, the tokenizer of the external library) is a field of the
  record \<open>world\<close>, which every effectful function takes and returns.
\<close>

subsection \<open>JSON values, exceptions\<close>

text \<open>
  A parsed JSON body. A Python dict keeps the order of insertion and has distinct keys:
  \<open>JObj\<close> lists its items in that order.
\<close>

datatype json =
    JNull
  | JBool bool
  | JInt int
  | JFloat real
  | JStr string
  | JArr "json list"
  | JObj "(string \<times> json) list"

datatype error =
    AttributeError
  | TypeError
  | KeyError
  | ValueError
  | OverflowError
  | BadRequest
  | ExternalError

text \<open>Python's truth value of a JSON value (\<^verbatim>\<open>if not data\<close>).\<close>

fun truthy :: "json \<Rightarrow> bool" where
  "truthy JNull = False"
| "truthy (JBool b) = b"
| "truthy (JInt i) = (i \<noteq> 0)"
| "truthy (JFloat r) = (r \<noteq> 0)"
| "truthy (JStr s) = (s \<noteq> [])"
| "truthy (JArr xs) = (xs \<noteq> [])"
| "truthy (JObj kvs) = (kvs \<noteq> [])"

text \<open>\<^verbatim>\<open>d.get(key, default)\<close>: only a dict has the method.\<close>

fun dict_get :: "json \<Rightarrow> string \<Rightarrow> json \<Rightarrow> error + json" where
  "dict_get (JObj kvs) k d = Inr (case map_of kvs k of None \<Rightarrow> d | Some v \<Rightarrow> v)"
| "dict_get _ k d = Inl AttributeError"

text \<open>\<^verbatim>\<open>d[key]\<close> with a string key.\<close>

fun subscript :: "json \<Rightarrow> string \<Rightarrow> error + json" where
  "subscript (JObj kvs) k = (case map_of kvs k of None \<Rightarrow> Inl KeyError | Some v \<Rightarrow> Inr v)"
| "subscript _ k = Inl TypeError"

text \<open>Reading a field of an object built by the service, for stating properties.\<close>

fun field :: "string \<Rightarrow> json \<Rightarrow> json option" where
  "field k (JObj kvs) = map_of kvs k"
| "field k _ = None"

text \<open>
  The least magnitude that is too large for a double: it is half-way between the largest
  double, \<open>2 ^ 1024 - 2 ^ 971\<close>, and \<open>2 ^ 1024\<close>, and rounds to the latter.
\<close>

definition float_overflow :: real where
  "float_overflow = 2 ^ 1024 - 2 ^ 970"

text \<open>
  The operand of an arithmetic operator beside a float: ints, floats and bools (\<^verbatim>\<open>True\<close>
  is 1) are numbers, an int too large for a double raises \<^verbatim>\<open>OverflowError\<close>, every other
  operand raises \<^verbatim>\<open>TypeError\<close>.
\<close>

fun num_of :: "json \<Rightarrow> error + real" where
  "num_of (JInt i) =
     (if float_overflow \<le> \<bar>real_of_int i\<bar> then Inl OverflowError else Inr (real_of_int i))"
| "num_of (JFloat r) = Inr r"
| "num_of (JBool b) = Inr (if b then 1 else 0)"
| "num_of _ = Inl TypeError"

definition py_sub :: "json \<Rightarrow> real \<Rightarrow> error + real" where
  "py_sub a c = (case num_of a of Inl e \<Rightarrow> Inl e | Inr x \<Rightarrow> Inr (x - c))"

text \<open>\<^verbatim>\<open>d ** 2\<close> on a float: \<^verbatim>\<open>OverflowError\<close> when the square is out of range.\<close>

definition py_square :: "real \<Rightarrow> error + real" where
  "py_square d = (if float_overflow \<le> d ^ 2 then Inl OverflowError else Inr (d ^ 2))"

subsection \<open>Urban and coastal areas\<close>

definition urban_centers :: "(real \<times> real \<times> real) list" where
  "urban_centers =
     [(13.0827, 80.2707, 50),
      (12.9716, 77.5946, 50),
      (19.0760, 72.8777, 50),
      (28.7041, 77.1025, 50)]"

definition coastal_regions :: "(real \<times> real \<times> real) list" where
  "coastal_regions =
     [(13.0827, 80.2707, 30),
      (19.0760, 72.8777, 20),
      (11.9416, 79.8083, 15)]"

text \<open>
  The loop of \<^verbatim>\<open>is_urban_area\<close> and \<^verbatim>\<open>is_coastal_area\<close>: the first center within its
  radius returns \<^verbatim>\<open>True\<close>. The distance is computed left to right: the difference of
  the latitudes and its square, the difference of the longitudes and its square, the
  sum, \<^verbatim>\<open>** 0.5\<close> (\<open>powr (1/2)\<close>), times 111.
\<close>

fun within_any :: "json \<Rightarrow> json \<Rightarrow> (real \<times> real \<times> real) list \<Rightarrow> error + bool" where
  "within_any lat lng [] = Inr False"
| "within_any lat lng ((center_lat, center_lng, radius) # rest) =
     (case py_sub lat center_lat of
        Inl e \<Rightarrow> Inl e
      | Inr dlat \<Rightarrow>
     (case py_square dlat of
        Inl e \<Rightarrow> Inl e
      | Inr dlat2 \<Rightarrow>
     (case py_sub lng center_lng of
        Inl e \<Rightarrow> Inl e
      | Inr dlng \<Rightarrow>
     (case py_square dlng of
        Inl e \<Rightarrow> Inl e
      | Inr dlng2 \<Rightarrow>
         (let distance = (dlat2 + dlng2) powr (1 / 2) * 111
          in if distance \<le> radius then Inr True else within_any lat lng rest)))))"

definition is_urban_area :: "json \<Rightarrow> json \<Rightarrow> error + bool" where
  "is_urban_area lat lng = within_any lat lng urban_centers"

definition is_coastal_area :: "json \<Rightarrow> json \<Rightarrow> error + bool" where
  "is_coastal_area lat lng = within_any lat lng coastal_regions"

subsection \<open>The same loop in the arithmetic of the platform\<close>

text \<open>
  The functions above compute with real numbers, and agree with the program where the
  distance is not within a rounding error of the radius. Here the float operations that
  the loop uses are what the platform provides, whatever they are: \<open>'f\<close> is its type of
  floats, \<open>operand\<close> the conversion of the left operand of \<^verbatim>\<open>-\<close> (it raises on a value
  that is no number, or an int too large), \<open>literal\<close> the float of a decimal literal,
  \<open>fsub\<close>, \<open>fadd\<close> and \<open>fmul\<close> the operators \<^verbatim>\<open>-\<close>, \<^verbatim>\<open>+\<close> and \<^verbatim>\<open>*\<close> (by an int literal),
  \<open>fsquare\<close> and \<open>froot\<close> the powers \<^verbatim>\<open>** 2\<close> (which can raise \<^verbatim>\<open>OverflowError\<close>) and
  \<^verbatim>\<open>** 0.5\<close>, and \<open>fle\<close> the comparison \<^verbatim>\<open><=\<close> with an int literal.
\<close>

record 'f arith =
  operand :: "json \<Rightarrow> error + 'f"
  literal :: "real \<Rightarrow> 'f"
  fsub :: "'f \<Rightarrow> 'f \<Rightarrow> 'f"
  fsquare :: "'f \<Rightarrow> error + 'f"
  fadd :: "'f \<Rightarrow> 'f \<Rightarrow> 'f"
  froot :: "'f \<Rightarrow> 'f"
  fmul :: "'f \<Rightarrow> real \<Rightarrow> 'f"
  fle :: "'f \<Rightarrow> real \<Rightarrow> bool"

text \<open>
  \<^verbatim>\<open>distance = ((lat - center_lat)**2 + (lng - center_lng)**2)**0.5 * 111\<close>, evaluated
  left to right.
\<close>

definition distance_arith :: "'f arith \<Rightarrow> json \<Rightarrow> json \<Rightarrow> real \<Rightarrow> real \<Rightarrow> error + 'f" where
  "distance_arith A lat lng center_lat center_lng =
     (case operand A lat of
        Inl e \<Rightarrow> Inl e
      | Inr x \<Rightarrow>
     (case fsquare A (fsub A x (literal A center_lat)) of
        Inl e \<Rightarrow> Inl e
      | Inr dlat2 \<Rightarrow>
     (case operand A lng of
        Inl e \<Rightarrow> Inl e
      | Inr y \<Rightarrow>
     (case fsquare A (fsub A y (literal A center_lng)) of
        Inl e \<Rightarrow> Inl e
      | Inr dlng2 \<Rightarrow> Inr (fmul A (froot A (fadd A dlat2 dlng2)) 111)))))"

fun within_any_arith ::
  "'f arith \<Rightarrow> json \<Rightarrow> json \<Rightarrow> (real \<times> real \<times> real) list \<Rightarrow> error + bool" where
  "within_any_arith A lat lng [] = Inr False"
| "within_any_arith A lat lng ((center_lat, center_lng, radius) # rest) =
     (case distance_arith A lat lng center_lat center_lng of
        Inl e \<Rightarrow> Inl e
      | Inr distance \<Rightarrow>
          if fle A distance radius then Inr True else within_any_arith A lat lng rest)"

definition is_urban_area_arith :: "'f arith \<Rightarrow> json \<Rightarrow> json \<Rightarrow> error + bool" where
  "is_urban_area_arith A lat lng = within_any_arith A lat lng urban_centers"

definition is_coastal_area_arith :: "'f arith \<Rightarrow> json \<Rightarrow> json \<Rightarrow> error + bool" where
  "is_coastal_area_arith A lat lng = within_any_arith A lat lng coastal_regions"

text \<open>The arithmetic of the real numbers, which the functions of the last subsection use.\<close>

definition real_arith :: "real arith" where
  "real_arith =
     \<lparr>operand = num_of,
      literal = (\<lambda>c. c),
      fsub = (\<lambda>x c. x - c),
      fsquare = py_square,
      fadd = (\<lambda>a b. a + b),
      froot = (\<lambda>a. a powr (1 / 2)),
      fmul = (\<lambda>a k. a * k),
      fle = (\<lambda>d r. d \<le> r)\<rparr>"

subsection \<open>Rounding and formatting of numbers\<close>

text \<open>
  Rounding to the nearest integer, a tie to the even one, as Python rounds. Here the
  number rounded is the real number; the program rounds the double nearest to it, which
  can fall on the other side of a decimal tie.
\<close>

definition round_half_even :: "real \<Rightarrow> int" where
  "round_half_even x =
     (let f = \<lfloor>x\<rfloor>; d = x - of_int f
      in if d < 1 / 2 then f else if 1 / 2 < d then f + 1 else if even f then f else f + 1)"

text \<open>\<^verbatim>\<open>round(x, ndigits)\<close>.\<close>

definition py_round :: "real \<Rightarrow> nat \<Rightarrow> real" where
  "py_round x ndigits = of_int (round_half_even (x * 10 ^ ndigits)) / 10 ^ ndigits"

definition digit :: "nat \<Rightarrow> char" where
  "digit d = ''0123456789'' ! d"

fun string_of_nat :: "nat \<Rightarrow> string" where
  "string_of_nat n =
     (if n < 10 then [digit n] else string_of_nat (n div 10) @ [digit (n mod 10)])"

declare string_of_nat.simps [simp del]

text \<open>
  The format specifications \<^verbatim>\<open>.Nf\<close> (\<open>show_plus = False\<close>) and \<^verbatim>\<open>+.Nf\<close> (\<open>show_plus = True\<close>)
  of an f-string: the sign of the number, then its rounded magnitude with \<open>N\<close> digits
  after the point. As with \<open>py_round\<close>, it is the real number that is rounded.
\<close>

definition format_f :: "bool \<Rightarrow> nat \<Rightarrow> real \<Rightarrow> string" where
  "format_f show_plus nd x =
     (let k = nat (round_half_even (\<bar>x\<bar> * 10 ^ nd));
          frac = string_of_nat (k mod 10 ^ nd);
          sign = (if x < 0 then ''-'' else if show_plus then ''+'' else [])
      in sign @ string_of_nat (k div 10 ^ nd) @
         (if nd = 0 then [] else ''.'' @ replicate (nd - length frac) (CHR ''0'') @ frac))"

subsection \<open>Strings\<close>

text \<open>\<^verbatim>\<open>str.lower\<close> on the ASCII letters; every other character is kept.\<close>

definition lower_char :: "char \<Rightarrow> char" where
  "lower_char c =
     (case map_of (zip ''ABCDEFGHIJKLMNOPQRSTUVWXYZ'' ''abcdefghijklmnopqrstuvwxyz'') c of
        None \<Rightarrow> c
      | Some l \<Rightarrow> l)"

definition lower :: "string \<Rightarrow> string" where
  "lower s = map lower_char s"

text \<open>\<^verbatim>\<open>sub in s\<close> on strings.\<close>

fun str_contains :: "string \<Rightarrow> string \<Rightarrow> bool" where
  "str_contains sub [] = (sub = [])"
| "str_contains sub (c # cs) = (take (length sub) (c # cs) = sub \<or> str_contains sub cs)"

subsection \<open>The processor and its surroundings\<close>

record TerraMindProcessor =
  model_name :: string
  model_loaded :: bool
  demo_mode :: bool

text \<open>
  The prompt of \<^verbatim>\<open>build_geospatial_prompt\<close>: a fixed text around the query, the two
  coordinates formatted with \<^verbatim>\<open>.4f\<close>, and the analysis type.
\<close>

datatype prompt = Prompt json string string json

text \<open>The messages of the logger, one constructor for each call in the source.\<close>

datatype log_event =
    LoadingModel
  | ModelLoaded
  | LoadFailed error
  | DemoModeNotice
  | RunningReal
  | GeneratingDemo
  | AnalysisError error
  | AnalysisCompleted
  | AnalysisRequest json
  | EndpointError error

text \<open>
  \<open>processor\<close> is the global instance; \<open>logged\<close> the messages written so far; \<open>rng\<close>
  the samples the generator of numpy will give, each in \<open>[0, 1)\<close>; \<open>now_iso\<close> what
  \<^verbatim>\<open>datetime.now().isoformat()\<close> returns; \<open>tokenizer\<close> the exception the tokenizer of
  the external library raises on a prompt, if any; \<open>exc_text\<close> the interpreter's
  \<^verbatim>\<open>str(e)\<close>.
\<close>

record world =
  processor :: TerraMindProcessor
  logged :: "log_event list"
  rng :: "nat \<Rightarrow> real"
  now_iso :: string
  tokenizer :: "prompt \<Rightarrow> error option"
  exc_text :: "error \<Rightarrow> string"

definition logger :: "log_event \<Rightarrow> world \<Rightarrow> world" where
  "logger ev s = s\<lparr>logged := logged s @ [ev]\<rparr>"

text \<open>\<^verbatim>\<open>np.random.uniform(low, high)\<close>: the next sample, scaled.\<close>

definition uniform :: "real \<Rightarrow> real \<Rightarrow> world \<Rightarrow> real \<times> world" where
  "uniform low high s = (low + (high - low) * rng s 0, s\<lparr>rng := \<lambda>n. rng s (Suc n)\<rparr>)"

text \<open>\<^verbatim>\<open>np.random.choice(a)\<close>: the next sample selects an index.\<close>

definition choice :: "string list \<Rightarrow> world \<Rightarrow> string \<times> world" where
  "choice a s =
     (a ! nat \<lfloor>rng s 0 * real (length a)\<rfloor>, s\<lparr>rng := \<lambda>n. rng s (Suc n)\<rparr>)"

text \<open>
  What the \<^verbatim>\<open>try\<close> block of \<^verbatim>\<open>__init__\<close> meets: the import of the external library
  raises, before anything is logged; or one of the two \<^verbatim>\<open>from_pretrained\<close> calls raises,
  after the loading message; or the model loads.
\<close>

datatype loading = ImportFails error | LoadFails error | Loads

text \<open>
  \<^verbatim>\<open>TerraMindProcessor.__init__\<close>: \<open>env\<close> is the value of \<^verbatim>\<open>TERRAMIND_DEMO_MODE\<close> in the
  environment, \<open>load\<close> what happens when the model is loaded.
\<close>

definition TerraMindProcessor_init :: "string option \<Rightarrow> loading \<Rightarrow> world \<Rightarrow> world" where
  "TerraMindProcessor_init env load s =
     (let p = \<lparr>model_name = ''ibm-esa-geospatial/TerraMind-1.0-large'',
               model_loaded = False,
               demo_mode = (lower (case env of None \<Rightarrow> ''true'' | Some v \<Rightarrow> v) = ''true'')\<rparr>;
          s0 = s\<lparr>processor := p\<rparr>;
          s1 = (if \<not> demo_mode p
                then (case load of
                        ImportFails e \<Rightarrow>
                          (logger (LoadFailed e) s0)\<lparr>processor := p\<lparr>demo_mode := True\<rparr>\<rparr>
                      | LoadFails e \<Rightarrow>
                          (logger (LoadFailed e) (logger LoadingModel s0))
                            \<lparr>processor := p\<lparr>demo_mode := True\<rparr>\<rparr>
                      | Loads \<Rightarrow>
                          logger ModelLoaded
                            ((logger LoadingModel s0)\<lparr>processor := p\<lparr>model_loaded := True\<rparr>\<rparr>))
                else s0)
      in if demo_mode (processor s1) then logger DemoModeNotice s1 else s1)"

subsection \<open>Helper methods\<close>

definition categorize_vegetation_health :: "real \<Rightarrow> string" where
  "categorize_vegetation_health ndvi =
     (if ndvi > 0.7 then ''excellent''
      else if ndvi > 0.5 then ''good''
      else if ndvi > 0.3 then ''moderate''
      else if ndvi > 0.1 then ''poor''
      else ''very_poor'')"

definition generate_vegetation_recommendations :: "real \<Rightarrow> json \<Rightarrow> string list" where
  "generate_vegetation_recommendations ndvi analysis_type =
     (if ndvi < 0.3 then
        [] @ [''Consider soil health improvement programs'',
              ''Implement water conservation measures'',
              ''Monitor for pest and disease pressure'']
      else if ndvi < 0.6 then
        [] @ [''Maintain current management practices'',
              ''Monitor seasonal variations'',
              ''Consider precision agriculture techniques'']
      else
        [] @ [''Excellent vegetation health detected'',
              ''Continue current conservation practices'',
              ''Consider this area for biodiversity studies''])"

text \<open>\<^verbatim>\<open>query.lower()\<close> exists on a string only.\<close>

fun str_lower :: "json \<Rightarrow> error + string" where
  "str_lower (JStr q) = Inr (lower q)"
| "str_lower _ = Inl AttributeError"

definition generate_geospatial_insights :: "json \<Rightarrow> json \<Rightarrow> error + string list" where
  "generate_geospatial_insights query analysis_type =
     (case str_lower query of
        Inl e \<Rightarrow> Inl e
      | Inr q \<Rightarrow>
          Inr (if str_contains ''fishing'' q then
                 [] @ [''Coastal water quality analysis indicates safe fishing conditions'',
                       ''Satellite data shows stable marine ecosystem health'',
                       ''No significant pollution indicators detected in water bodies'']
               else if str_contains ''water'' q then
                 [] @ [''Multi-spectral analysis reveals water body health status'',
                       ''NDWI indicators show adequate water availability'',
                       ''No significant contamination detected in satellite imagery'']
               else if str_contains ''development'' q then
                 [] @ [''Land use change analysis shows development patterns'',
                       ''Urban expansion rate within sustainable limits'',
                       ''Environmental impact assessment suggests moderate pressure'']
               else
                 [] @ [''Comprehensive satellite analysis completed'',
                       ''Multi-temporal change detection reveals stable conditions'',
                       ''Environmental health indicators within normal ranges'']))"

definition risk :: "string \<Rightarrow> string \<Rightarrow> real \<Rightarrow> json" where
  "risk t l c = JObj [(''type'', JStr t), (''level'', JStr l), (''confidence'', JFloat c)]"

definition assess_environmental_risks :: "json \<Rightarrow> json \<Rightarrow> json \<Rightarrow> error + json list" where
  "assess_environmental_risks lat lng analysis_type =
     (case is_urban_area lat lng of
        Inl e \<Rightarrow> Inl e
      | Inr urban \<Rightarrow>
          if urban then
            Inr ([] @ [risk ''air_pollution'' ''moderate'' 0.82,
                       risk ''urban_heat_island'' ''high'' 0.78,
                       risk ''water_stress'' ''moderate'' 0.75])
          else
            (case is_coastal_area lat lng of
               Inl e \<Rightarrow> Inl e
             | Inr coastal \<Rightarrow>
                 if coastal then
                   Inr ([] @ [risk ''sea_level_rise'' ''moderate'' 0.85,
                              risk ''coastal_erosion'' ''low'' 0.72,
                              risk ''storm_surge'' ''moderate'' 0.80])
                 else
                   Inr ([] @ [risk ''drought_risk'' ''low'' 0.88,
                              risk ''soil_degradation'' ''moderate'' 0.75,
                              risk ''biodiversity_loss'' ''low'' 0.82])))"

text \<open>
  \<^verbatim>\<open>format(v, ".4f")\<close> on a JSON value: an int is converted to a float first, a string
  has no such format code, \<^verbatim>\<open>None\<close>, lists and dicts accept no format string.
\<close>

fun format_4f :: "json \<Rightarrow> error + string" where
  "format_4f (JInt i) =
     (if float_overflow \<le> \<bar>real_of_int i\<bar> then Inl OverflowError
      else Inr (format_f False 4 (real_of_int i)))"
| "format_4f (JFloat r) = Inr (format_f False 4 r)"
| "format_4f (JBool b) = Inr (format_f False 4 (if b then 1 else 0))"
| "format_4f (JStr v) = Inl ValueError"
| "format_4f _ = Inl TypeError"

definition build_geospatial_prompt :: "json \<Rightarrow> json \<Rightarrow> json \<Rightarrow> error + prompt" where
  "build_geospatial_prompt query coordinates analysis_type =
     (case subscript coordinates ''lat'' of
        Inl e \<Rightarrow> Inl e
      | Inr lat \<Rightarrow>
     (case format_4f lat of
        Inl e \<Rightarrow> Inl e
      | Inr lat_text \<Rightarrow>
     (case subscript coordinates ''lng'' of
        Inl e \<Rightarrow> Inl e
      | Inr lng \<Rightarrow>
     (case format_4f lng of
        Inl e \<Rightarrow> Inl e
      | Inr lng_text \<Rightarrow> Inr (Prompt query lat_text lng_text analysis_type)))))"

subsection \<open>The simulated analyses\<close>

definition simulate_land_use_classification ::
  "json \<Rightarrow> json \<Rightarrow> json \<Rightarrow> world \<Rightarrow> (error + json) \<times> world" where
  "simulate_land_use_classification lat lng analysis_type s =
     (case is_urban_area lat lng of
        Inl e \<Rightarrow> (Inl e, s)
      | Inr is_urban \<Rightarrow>
     (case is_coastal_area lat lng of
        Inl e \<Rightarrow> (Inl e, s)
      | Inr is_coastal \<Rightarrow>
          if is_urban then
            (let (urban, s1) = uniform 45 65 s;
                 (vegetation, s2) = uniform 20 35 s1;
                 (water, s3) = uniform 5 15 s2;
                 (agriculture, s4) = uniform 5 15 s3;
                 (bare_soil, s5) = uniform 2 8 s4
             in (Inr (JObj
                  [(''primary_class'', JStr ''urban''),
                   (''confidence'', JFloat 0.87),
                   (''classes'', JObj
                      [(''urban'', JFloat (py_round urban 1)),
                       (''vegetation'', JFloat (py_round vegetation 1)),
                       (''water'', JFloat (py_round water 1)),
                       (''agriculture'', JFloat (py_round agriculture 1)),
                       (''bare_soil'', JFloat (py_round bare_soil 1))]),
                   (''change_indicators'', JObj
                      [(''urban_expansion'', JStr ''+2.3% annually''),
                       (''vegetation_loss'', JStr ''-1.8% annually'')])]), s5))
          else if is_coastal then
            (let (water, s1) = uniform 35 55 s;
                 (vegetation, s2) = uniform 25 40 s1;
                 (urban, s3) = uniform 15 25 s2;
                 (sand, s4) = uniform 5 15 s3;
                 (agriculture, s5) = uniform 3 10 s4
             in (Inr (JObj
                  [(''primary_class'', JStr ''coastal_mixed''),
                   (''confidence'', JFloat 0.82),
                   (''classes'', JObj
                      [(''water'', JFloat (py_round water 1)),
                       (''vegetation'', JFloat (py_round vegetation 1)),
                       (''urban'', JFloat (py_round urban 1)),
                       (''sand'', JFloat (py_round sand 1)),
                       (''agriculture'', JFloat (py_round agriculture 1))]),
                   (''coastal_indicators'', JObj
                      [(''erosion_rate'', JStr ''0.5m/year''),
                       (''water_quality'', JStr ''moderate'')])]), s5))
          else
            (let (agriculture, s1) = uniform 50 70 s;
                 (vegetation, s2) = uniform 20 35 s1;
                 (water, s3) = uniform 3 10 s2;
                 (urban, s4) = uniform 2 8 s3;
                 (bare_soil, s5) = uniform 5 15 s4
             in (Inr (JObj
                  [(''primary_class'', JStr ''agricultural''),
                   (''confidence'', JFloat 0.91),
                   (''classes'', JObj
                      [(''agriculture'', JFloat (py_round agriculture 1)),
                       (''vegetation'', JFloat (py_round vegetation 1)),
                       (''water'', JFloat (py_round water 1)),
                       (''urban'', JFloat (py_round urban 1)),
                       (''bare_soil'', JFloat (py_round bare_soil 1))]),
                   (''agricultural_indicators'', JObj
                      [(''crop_health'', JStr ''good''),
                       (''irrigation_efficiency'', JStr ''moderate'')])]), s5))))"

definition simulate_vegetation_health_analysis :: "json \<Rightarrow> json \<Rightarrow> world \<Rightarrow> json \<times> world" where
  "simulate_vegetation_health_analysis satellite_data analysis_type s =
     (let (base_ndvi, s1) = uniform 0.3 0.8 s;
          (disease_pressure, s2) = choice [''low'', ''moderate''] s1;
          (nutrient_status, s3) = choice [''adequate'', ''deficient''] s2;
          (six_month_change, s4) = uniform (- 5) 10 s3;
          (growth_trajectory, s5) = choice [''stable'', ''improving'', ''declining''] s4
      in (JObj
           [(''ndvi_score'', JFloat (py_round base_ndvi 3)),
            (''health_category'', JStr (categorize_vegetation_health base_ndvi)),
            (''stress_indicators'', JObj
               [(''drought_stress'', JStr (if base_ndvi > 0.6 then ''low'' else ''moderate'')),
                (''disease_pressure'', JStr disease_pressure),
                (''nutrient_status'', JStr nutrient_status)]),
            (''temporal_trends'', JObj
               [(''6_month_change'', JStr (format_f True 1 six_month_change @ ''%'')),
                (''seasonal_pattern'', JStr ''normal''),
                (''growth_trajectory'', JStr growth_trajectory)]),
            (''recommendations'',
               JArr (map JStr (generate_vegetation_recommendations base_ndvi analysis_type)))],
          s5))"

definition simulate_change_detection_analysis :: "json \<Rightarrow> json \<Rightarrow> world \<Rightarrow> json \<times> world" where
  "simulate_change_detection_analysis lat lng s =
     (let (significant_changes, s1) = uniform 5 25 s;
          (change_confidence, s2) = uniform 0.8 0.95 s1;
          (deforestation, s3) = uniform 0 3 s2;
          (urban_expansion, s4) = uniform 1 8 s3;
          (water_body_changes, s5) = uniform (- 2) 2 s4;
          (agricultural_conversion, s6) = uniform (- 1) 5 s5;
          (area1, s7) = uniform 50 200 s6;
          (area2, s8) = uniform 100 500 s7
      in (JObj
           [(''temporal_analysis'', JObj
               [(''analysis_period'', JStr ''12 months''),
                (''significant_changes'', JFloat (py_round significant_changes 1)),
                (''change_confidence'', JFloat (py_round change_confidence 3))]),
            (''land_cover_changes'', JObj
               [(''deforestation'', JStr (format_f False 1 deforestation @ ''%'')),
                (''urban_expansion'', JStr (format_f False 1 urban_expansion @ ''%'')),
                (''water_body_changes'', JStr (format_f True 1 water_body_changes @ ''%'')),
                (''agricultural_conversion'',
                   JStr (format_f True 1 agricultural_conversion @ ''%''))]),
            (''hotspots'', JArr
               [JObj [(''type'', JStr ''urban_development''),
                      (''intensity'', JStr ''high''),
                      (''area'', JStr (format_f False 0 area1 @ '' hectares''))],
                JObj [(''type'', JStr ''vegetation_change''),
                      (''intensity'', JStr ''moderate''),
                      (''area'', JStr (format_f False 0 area2 @ '' hectares''))]])],
          s8))"

definition simulate_environmental_assessment :: "json \<Rightarrow> json \<Rightarrow> world \<Rightarrow> json \<times> world" where
  "simulate_environmental_assessment query analysis_type s =
     (let (environmental_score, s1) = uniform 6.5 9.2 s;
          (carbon_sequestration, s2) = uniform 50 150 s1;
          (biodiversity_index, s3) = uniform 0.6 0.9 s2;
          (ecosystem_health, s4) = choice [''excellent'', ''good'', ''moderate''] s3;
          (pollution_pressure, s5) = choice [''low'', ''moderate'', ''high''] s4;
          (development_pressure, s6) = choice [''low'', ''moderate'', ''high''] s5;
          (resource_exploitation, s7) = choice [''sustainable'', ''moderate'', ''intensive''] s6;
          (outlook, s8) = choice [''stable'', ''improving'', ''declining''] s7
      in (JObj
           [(''environmental_score'', JFloat (py_round environmental_score 1)),
            (''sustainability_indicators'', JObj
               [(''carbon_sequestration'',
                   JStr (format_f False 0 carbon_sequestration @ '' kg CO2/ha/year'')),
                (''biodiversity_index'', JFloat (py_round biodiversity_index 2)),
                (''ecosystem_health'', JStr ecosystem_health)]),
            (''human_impact_factors'', JObj
               [(''pollution_pressure'', JStr pollution_pressure),
                (''development_pressure'', JStr development_pressure),
                (''resource_exploitation'', JStr resource_exploitation)]),
            (''predictive_insights'', JObj
               [(''5_year_outlook'', JStr outlook),
                (''risk_factors'',
                   JArr [JStr ''climate_change'', JStr ''urban_expansion'', JStr ''water_stress'']),
                (''opportunities'',
                   JArr [JStr ''conservation'', JStr ''sustainable_development'',
                         JStr ''restoration''])])],
          s8))"

subsection \<open>The analysis\<close>

definition generate_demo_analysis ::
  "json \<Rightarrow> json \<Rightarrow> json \<Rightarrow> json \<Rightarrow> world \<Rightarrow> (error + json) \<times> world" where
  "generate_demo_analysis query satellite_data coordinates analysis_type s =
     (let s0 = logger GeneratingDemo s in
      case dict_get coordinates ''lat'' (JInt 0) of
        Inl e \<Rightarrow> (Inl e, s0)
      | Inr lat \<Rightarrow>
     (case dict_get coordinates ''lng'' (JInt 0) of
        Inl e \<Rightarrow> (Inl e, s0)
      | Inr lng \<Rightarrow>
     (case simulate_land_use_classification lat lng analysis_type s0 of
        (Inl e, s1) \<Rightarrow> (Inl e, s1)
      | (Inr land_use_analysis, s1) \<Rightarrow>
         (let (vegetation_analysis, s2) =
                simulate_vegetation_health_analysis satellite_data analysis_type s1;
              (change_detection, s3) = simulate_change_detection_analysis lat lng s2;
              (environmental_assessment, s4) =
                simulate_environmental_assessment query analysis_type s3;
              (multimodal_confidence, s5) = uniform 0.75 0.95 s4
          in case generate_geospatial_insights query analysis_type of
               Inl e \<Rightarrow> (Inl e, s5)
             | Inr insights \<Rightarrow>
            (case assess_environmental_risks lat lng analysis_type of
               Inl e \<Rightarrow> (Inl e, s5)
             | Inr risks \<Rightarrow>
                (let (processing_time, s6) = uniform 1.2 3.5 s5
                 in (Inr (JObj
                      [(''success'', JBool True),
                       (''model'', JStr ''TerraMind-1.0-large''),
                       (''mode'', JStr ''demo''),
                       (''analysis'', JObj
                          [(''land_use_classification'', land_use_analysis),
                           (''vegetation_health'', vegetation_analysis),
                           (''change_detection'', change_detection),
                           (''environmental_assessment'', environmental_assessment),
                           (''multimodal_confidence'', JFloat (py_round multimodal_confidence 3)),
                           (''geospatial_insights'', JArr (map JStr insights)),
                           (''risk_factors'', JArr risks)]),
                       (''metadata'', JObj
                          [(''timestamp'', JStr (now_iso s6)),
                           (''coordinates'', coordinates),
                           (''analysis_type'', analysis_type),
                           (''modalities_processed'',
                              JArr [JStr ''optical'', JStr ''sar'', JStr ''climate'', JStr ''text'']),
                           (''processing_time'', JFloat (py_round processing_time 2))])]),
                     s6)))))))"

text \<open>
  \<^verbatim>\<open>run_terramind_analysis\<close> builds the prompt and calls the tokenizer; its next step
  calls \<^verbatim>\<open>self.process_satellite_modalities\<close>, a method that the class does not define,
  which raises \<^verbatim>\<open>AttributeError\<close>.
\<close>

definition run_terramind_analysis ::
  "json \<Rightarrow> json \<Rightarrow> json \<Rightarrow> json \<Rightarrow> world \<Rightarrow> (error + json) \<times> world" where
  "run_terramind_analysis query satellite_data coordinates analysis_type s =
     (let s0 = logger RunningReal s in
      case build_geospatial_prompt query coordinates analysis_type of
        Inl e \<Rightarrow> (Inl e, s0)
      | Inr text_prompt \<Rightarrow>
         (case tokenizer s0 text_prompt of
            Some e \<Rightarrow> (Inl e, s0)
          | None \<Rightarrow> (Inl AttributeError, s0)))"

text \<open>
  \<^verbatim>\<open>analyze_geospatial_data\<close>: the \<^verbatim>\<open>try\<close> block, the handler of \<^verbatim>\<open>Exception\<close>, and the
  \<^verbatim>\<open>finally\<close> block, which logs on every way out.
\<close>

definition analyze_geospatial_data ::
  "json \<Rightarrow> json \<Rightarrow> json \<Rightarrow> json \<Rightarrow> world \<Rightarrow> (error + json) \<times> world" where
  "analyze_geospatial_data query satellite_data coordinates analysis_type s =
     (let (r, s1) =
            (case (if demo_mode (processor s) \<or> \<not> model_loaded (processor s)
                   then generate_demo_analysis query satellite_data coordinates analysis_type s
                   else run_terramind_analysis query satellite_data coordinates analysis_type s) of
               (Inr result, s') \<Rightarrow> (Inr result, s')
             | (Inl e, s') \<Rightarrow>
                 generate_demo_analysis query satellite_data coordinates analysis_type
                   (logger (AnalysisError e) s'))
      in (r, logger AnalysisCompleted s1))"

subsection \<open>The endpoint\<close>

text \<open>\<^verbatim>\<open>query[:50]\<close>: strings and lists have slices.\<close>

fun slice50 :: "json \<Rightarrow> error + json" where
  "slice50 (JStr q) = Inr (JStr (take 50 q))"
| "slice50 (JArr xs) = Inr (JArr (take 50 xs))"
| "slice50 _ = Inl TypeError"

text \<open>
  The \<^verbatim>\<open>try\<close> block of \<^verbatim>\<open>analyze_geospatial\<close>. \<open>get_json\<close> is what
  \<^verbatim>\<open>request.get_json()\<close> does on the request: it raises or returns the parsed body.
  The result is a status and a body.
\<close>

definition analyze_geospatial_try ::
  "error + json \<Rightarrow> world \<Rightarrow> (error + nat \<times> json) \<times> world" where
  "analyze_geospatial_try get_json s =
     (case get_json of
        Inl e \<Rightarrow> (Inl e, s)
      | Inr data \<Rightarrow>
          if \<not> truthy data then (Inr (400, JObj [(''error'', JStr ''No data provided'')]), s)
          else
         (case dict_get data ''query'' (JStr []) of
            Inl e \<Rightarrow> (Inl e, s)
          | Inr query \<Rightarrow>
         (case dict_get data ''satellite_data'' (JObj []) of
            Inl e \<Rightarrow> (Inl e, s)
          | Inr satellite_data \<Rightarrow>
         (case dict_get data ''coordinates'' (JObj []) of
            Inl e \<Rightarrow> (Inl e, s)
          | Inr coordinates \<Rightarrow>
         (case dict_get data ''analysis_type'' (JStr ''general'') of
            Inl e \<Rightarrow> (Inl e, s)
          | Inr analysis_type \<Rightarrow>
         (case slice50 query of
            Inl e \<Rightarrow> (Inl e, s)
          | Inr shown \<Rightarrow>
         (case analyze_geospatial_data query satellite_data coordinates analysis_type
                 (logger (AnalysisRequest shown) s) of
            (Inl e, s1) \<Rightarrow> (Inl e, s1)
          | (Inr result, s1) \<Rightarrow> (Inr (200, result), s1))))))))"

definition analyze_geospatial :: "error + json \<Rightarrow> world \<Rightarrow> (nat \<times> json) \<times> world" where
  "analyze_geospatial get_json s =
     (case analyze_geospatial_try get_json s of
        (Inr response, s1) \<Rightarrow> (response, s1)
      | (Inl e, s1) \<Rightarrow>
          ((500, JObj [(''error'', JStr ''Analysis failed''),
                       (''message'', JStr (exc_text s1 e)),
                       (''fallback'', JBool True)]),
           logger (EndpointError e) s1))"

subsection \<open>Worlds and schemas for stating properties\<close>

text \<open>
  The world before the processor is created: nothing is logged, the generator will give
  \<open>samples\<close>, the tokenizer raises nothing.
\<close>

definition initial_world :: "(nat \<Rightarrow> real) \<Rightarrow> world" where
  "initial_world samples =
     \<lparr>processor = \<lparr>model_name = [], model_loaded = False, demo_mode = False\<rparr>,
      logged = [],
      rng = samples,
      now_iso = ''2025-01-01T00:00:00'',
      tokenizer = (\<lambda>p. None),
      exc_text = (\<lambda>e. ''error'')\<rparr>"

text \<open>An object has every key of a list.\<close>

definition has_fields :: "string list \<Rightarrow> json \<Rightarrow> bool" where
  "has_fields ks obj = list_all (\<lambda>k. field k obj \<noteq> None) ks"

text \<open>
  The schema of a demo analysis in the words of the specification: the five top-level
  fields, and the seven fields of \<open>analysis\<close>.
\<close>

definition conforms_to_schema :: "json \<Rightarrow> bool" where
  "conforms_to_schema obj =
     (has_fields [''success'', ''model'', ''mode'', ''analysis'', ''metadata''] obj \<and>
      (case field ''analysis'' obj of
         None \<Rightarrow> False
       | Some a \<Rightarrow>
           has_fields [''land_use_classification'', ''vegetation_health'', ''change_detection'',
                       ''environmental_assessment'', ''multimodal_confidence'',
                       ''geospatial_insights'', ''risk_factors''] a))"

section \<open>Properties\<close>

subsection \<open>Distances\<close>

lemma dist_le_iff:
  fixes u r :: real
  assumes "0 \<le> u" and "0 \<le> r"
  shows "(sqrt u * 111 \<le> r) = (u * 12321 \<le> r ^ 2)"
proof -
  have "sqrt u * 111 = sqrt (u * 12321)"
    by (simp add: real_sqrt_mult)
  moreover have "(sqrt (u * 12321) \<le> r) = (u * 12321 \<le> r ^ 2)"
    using assms by (metis real_sqrt_le_iff real_sqrt_abs abs_of_nonneg)
  ultimately show ?thesis by simp
qed

lemma square_in_range:
  fixes d :: real
  assumes "\<bar>d\<bar> \<le> 10 ^ 101"
  shows "d ^ 2 < float_overflow"
proof -
  have "d ^ 2 = \<bar>d\<bar> ^ 2"
    by simp
  also have "\<dots> \<le> (10 ^ 101) ^ 2"
    using assms by (intro power_mono) simp_all
  also have "\<dots> < float_overflow"
    by (simp add: float_overflow_def)
  finally show ?thesis .
qed

lemma py_square_in_range:
  "\<bar>d\<bar> \<le> 10 ^ 101 \<Longrightarrow> py_square d = Inr (d ^ 2)"
  using square_in_range [of d] by (simp add: py_square_def)

lemma py_square_result:
  "py_square d = Inr v \<Longrightarrow> v = d ^ 2"
  by (simp add: py_square_def split: if_splits)

text \<open>One round of the loop, when it raises nothing.\<close>

lemma within_any_step:
  assumes "num_of lat = Inr x" and "num_of lng = Inr y"
    and "py_square (x - clat) = Inr a" and "py_square (y - clng) = Inr b"
  shows "within_any lat lng ((clat, clng, r) # cs) =
           (if sqrt ((x - clat) ^ 2 + (y - clng) ^ 2) * 111 \<le> r then Inr True
            else within_any lat lng cs)"
proof -
  have "a = (x - clat) ^ 2" "b = (y - clng) ^ 2"
    using assms(3,4) by (simp_all add: py_square_result)
  then show ?thesis
    using assms by (simp add: py_sub_def powr_half_sqrt)
qed

text \<open>What the loop returns, when it returns, is the test of the specification.\<close>

lemma within_any_sound:
  assumes "num_of lat = Inr x" and "num_of lng = Inr y"
  shows "within_any lat lng cs = Inr b \<Longrightarrow>
         b = (\<exists>(clat, clng, r) \<in> set cs. sqrt ((x - clat) ^ 2 + (y - clng) ^ 2) * 111 \<le> r)"
proof (induction cs)
  case Nil
  then show ?case by simp
next
  case (Cons c cs)
  obtain clat clng r where c: "c = (clat, clng, r)"
    by (cases c)
  from Cons.prems obtain a' b' where
    sq: "py_square (x - clat) = Inr a'" "py_square (y - clng) = Inr b'"
    using assms by (auto simp: c py_sub_def split: sum.splits)
  note step = within_any_step [OF assms sq, of r cs]
  show ?case
  proof (cases "sqrt ((x - clat) ^ 2 + (y - clng) ^ 2) * 111 \<le> r")
    case True
    with step Cons.prems show ?thesis by (simp add: c)
  next
    case False
    with step Cons.prems have "within_any lat lng cs = Inr b" by (simp add: c)
    from Cons.IH [OF this] False show ?thesis by (simp add: c)
  qed
qed

text \<open>Away from overflow the loop returns.\<close>

lemma within_any_in_range:
  assumes "num_of lat = Inr x" and "num_of lng = Inr y"
  shows "(\<forall>(clat, clng, r) \<in> set cs. \<bar>x - clat\<bar> \<le> 10 ^ 101 \<and> \<bar>y - clng\<bar> \<le> 10 ^ 101) \<Longrightarrow>
         within_any lat lng cs =
           Inr (\<exists>(clat, clng, r) \<in> set cs. sqrt ((x - clat) ^ 2 + (y - clng) ^ 2) * 111 \<le> r)"
proof (induction cs)
  case Nil
  then show ?case by simp
next
  case (Cons c cs)
  obtain clat clng r where c: "c = (clat, clng, r)"
    by (cases c)
  from Cons.prems have "\<bar>x - clat\<bar> \<le> 10 ^ 101" "\<bar>y - clng\<bar> \<le> 10 ^ 101"
    by (simp_all add: c)
  then have sq: "py_square (x - clat) = Inr ((x - clat) ^ 2)"
    "py_square (y - clng) = Inr ((y - clng) ^ 2)"
    by (simp_all add: py_square_in_range)
  from Cons.prems have "within_any lat lng cs =
           Inr (\<exists>(clat, clng, r) \<in> set cs. sqrt ((x - clat) ^ 2 + (y - clng) ^ 2) * 111 \<le> r)"
    by (intro Cons.IH) simp
  with within_any_step [OF assms sq, of r cs] show ?case
    by (simp add: c)
qed

lemma within_any_returns_numbers:
  assumes "within_any lat lng (c # cs) = Inr b"
  shows "\<exists>x y. num_of lat = Inr x \<and> num_of lng = Inr y"
proof -
  obtain clat clng r where c: "c = (clat, clng, r)"
    by (cases c)
  from assms show ?thesis
    by (auto simp: c py_sub_def split: sum.splits)
qed

subsection \<open>Urban and coastal areas\<close>

text \<open>
  The facts of this subsection are about the two functions over the real numbers. They
  are used where a center is far away or at distance zero, so that rounding decides
  nothing.
\<close>

lemma area_sound:
  assumes "num_of lat = Inr x" and "num_of lng = Inr y"
  shows "is_urban_area lat lng = Inr b \<Longrightarrow>
           b = (\<exists>(clat, clng, r) \<in> set urban_centers.
                  sqrt ((x - clat) ^ 2 + (y - clng) ^ 2) * 111 \<le> r)"
    and "is_coastal_area lat lng = Inr b \<Longrightarrow>
           b = (\<exists>(clat, clng, r) \<in> set coastal_regions.
                  sqrt ((x - clat) ^ 2 + (y - clng) ^ 2) * 111 \<le> r)"
  unfolding is_urban_area_def is_coastal_area_def
  by (rule within_any_sound [OF assms], assumption)+

lemma area_in_range:
  assumes "num_of lat = Inr x" and "num_of lng = Inr y"
    and "\<bar>x\<bar> \<le> 10 ^ 100" and "\<bar>y\<bar> \<le> 10 ^ 100"
  shows "is_urban_area lat lng =
           Inr (\<exists>(clat, clng, r) \<in> set urban_centers.
                  sqrt ((x - clat) ^ 2 + (y - clng) ^ 2) * 111 \<le> r)"
    and "is_coastal_area lat lng =
           Inr (\<exists>(clat, clng, r) \<in> set coastal_regions.
                  sqrt ((x - clat) ^ 2 + (y - clng) ^ 2) * 111 \<le> r)"
proof -
  have "\<forall>(clat, clng, r) \<in> set urban_centers. \<bar>x - clat\<bar> \<le> 10 ^ 101 \<and> \<bar>y - clng\<bar> \<le> 10 ^ 101"
    using assms(3,4) by (auto simp: urban_centers_def)
  then show "is_urban_area lat lng =
           Inr (\<exists>(clat, clng, r) \<in> set urban_centers.
                  sqrt ((x - clat) ^ 2 + (y - clng) ^ 2) * 111 \<le> r)"
    unfolding is_urban_area_def by (rule within_any_in_range [OF assms(1,2)])
  have "\<forall>(clat, clng, r) \<in> set coastal_regions. \<bar>x - clat\<bar> \<le> 10 ^ 101 \<and> \<bar>y - clng\<bar> \<le> 10 ^ 101"
    using assms(3,4) by (auto simp: coastal_regions_def)
  then show "is_coastal_area lat lng =
           Inr (\<exists>(clat, clng, r) \<in> set coastal_regions.
                  sqrt ((x - clat) ^ 2 + (y - clng) ^ 2) * 111 \<le> r)"
    unfolding is_coastal_area_def by (rule within_any_in_range [OF assms(1,2)])
qed

lemma area_returns_numbers:
  "is_urban_area lat lng = Inr b \<Longrightarrow> \<exists>x y. num_of lat = Inr x \<and> num_of lng = Inr y"
  "is_coastal_area lat lng = Inr b \<Longrightarrow> \<exists>x y. num_of lat = Inr x \<and> num_of lng = Inr y"
  unfolding is_urban_area_def is_coastal_area_def urban_centers_def coastal_regions_def
  by (erule within_any_returns_numbers)+

text \<open>A point within the radius of a center, a radius of at most 111, is within one degree of it.\<close>

lemma near_center:
  fixes x y clat clng r :: real
  assumes "sqrt ((x - clat) ^ 2 + (y - clng) ^ 2) * 111 \<le> r" and "r \<le> 111"
  shows "\<bar>x - clat\<bar> \<le> 1" and "\<bar>y - clng\<bar> \<le> 1"
proof -
  define d where "d = sqrt ((x - clat) ^ 2 + (y - clng) ^ 2)"
  have "\<bar>x - clat\<bar> \<le> d" and "\<bar>y - clng\<bar> \<le> d"
    unfolding d_def by (rule real_sqrt_ge_abs1, rule real_sqrt_ge_abs2)
  moreover from assms have "d \<le> 1"
    unfolding d_def by linarith
  ultimately show "\<bar>x - clat\<bar> \<le> 1" and "\<bar>y - clng\<bar> \<le> 1"
    by linarith+
qed

lemma near_some_center_in_range:
  fixes x y :: real
  assumes "(\<exists>(clat, clng, r) \<in> set urban_centers.
              sqrt ((x - clat) ^ 2 + (y - clng) ^ 2) * 111 \<le> r) \<or>
           (\<exists>(clat, clng, r) \<in> set coastal_regions.
              sqrt ((x - clat) ^ 2 + (y - clng) ^ 2) * 111 \<le> r)"
  shows "\<bar>x\<bar> \<le> 10 ^ 100 \<and> \<bar>y\<bar> \<le> 10 ^ 100"
proof -
  have centers: "\<forall>(clat, clng, r) \<in> set urban_centers \<union> set coastal_regions.
                   r \<le> 111 \<and> \<bar>clat\<bar> \<le> 100 \<and> \<bar>clng\<bar> \<le> 100"
    by (simp add: urban_centers_def coastal_regions_def)
  from assms obtain p where
    p: "p \<in> set urban_centers \<union> set coastal_regions"
    and near_p: "case p of (clat, clng, r) \<Rightarrow>
                   sqrt ((x - clat) ^ 2 + (y - clng) ^ 2) * 111 \<le> r"
    by blast
  obtain clat clng r where "p = (clat, clng, r)"
    by (cases p)
  with p near_p centers have
    near: "sqrt ((x - clat) ^ 2 + (y - clng) ^ 2) * 111 \<le> r"
    and c: "r \<le> 111" "\<bar>clat\<bar> \<le> 100" "\<bar>clng\<bar> \<le> 100"
    by blast+
  from near_center [OF near c(1)] c(2,3) have "\<bar>x\<bar> \<le> 101" "\<bar>y\<bar> \<le> 101"
    by linarith+
  moreover have "(101 :: real) \<le> 10 ^ 100"
    by simp
  ultimately show ?thesis
    by linarith
qed

lemma area_True_iff:
  assumes "num_of lat = Inr x" and "num_of lng = Inr y"
  shows "(is_urban_area lat lng = Inr True) =
           (\<exists>(clat, clng, r) \<in> set urban_centers.
              sqrt ((x - clat) ^ 2 + (y - clng) ^ 2) * 111 \<le> r)"
    and "(is_coastal_area lat lng = Inr True) =
           (\<exists>(clat, clng, r) \<in> set coastal_regions.
              sqrt ((x - clat) ^ 2 + (y - clng) ^ 2) * 111 \<le> r)"
proof -
  show "(is_urban_area lat lng = Inr True) =
           (\<exists>(clat, clng, r) \<in> set urban_centers.
              sqrt ((x - clat) ^ 2 + (y - clng) ^ 2) * 111 \<le> r)"
  proof
    assume "is_urban_area lat lng = Inr True"
    from area_sound(1) [OF assms this]
    show "\<exists>(clat, clng, r) \<in> set urban_centers.
              sqrt ((x - clat) ^ 2 + (y - clng) ^ 2) * 111 \<le> r"
      by simp
  next
    assume near: "\<exists>(clat, clng, r) \<in> set urban_centers.
              sqrt ((x - clat) ^ 2 + (y - clng) ^ 2) * 111 \<le> r"
    then have "\<bar>x\<bar> \<le> 10 ^ 100" "\<bar>y\<bar> \<le> 10 ^ 100"
      using near_some_center_in_range [of x y] by blast+
    from area_in_range(1) [OF assms this] near show "is_urban_area lat lng = Inr True"
      by simp
  qed
  show "(is_coastal_area lat lng = Inr True) =
           (\<exists>(clat, clng, r) \<in> set coastal_regions.
              sqrt ((x - clat) ^ 2 + (y - clng) ^ 2) * 111 \<le> r)"
  proof
    assume "is_coastal_area lat lng = Inr True"
    from area_sound(2) [OF assms this]
    show "\<exists>(clat, clng, r) \<in> set coastal_regions.
              sqrt ((x - clat) ^ 2 + (y - clng) ^ 2) * 111 \<le> r"
      by simp
  next
    assume near: "\<exists>(clat, clng, r) \<in> set coastal_regions.
              sqrt ((x - clat) ^ 2 + (y - clng) ^ 2) * 111 \<le> r"
    then have "\<bar>x\<bar> \<le> 10 ^ 100" "\<bar>y\<bar> \<le> 10 ^ 100"
      using near_some_center_in_range [of x y] by blast+
    from area_in_range(2) [OF assms this] near show "is_coastal_area lat lng = Inr True"
      by simp
  qed
qed

text \<open>An urban area is in range, so the coastal test returns there too.\<close>

lemma urban_then_coastal_returns:
  assumes "is_urban_area lat lng = Inr True"
  shows "\<exists>coastal. is_coastal_area lat lng = Inr coastal"
proof -
  from area_returns_numbers(1) [OF assms] obtain x y where
    num: "num_of lat = Inr x" "num_of lng = Inr y"
    by blast
  from assms have "\<exists>(clat, clng, r) \<in> set urban_centers.
              sqrt ((x - clat) ^ 2 + (y - clng) ^ 2) * 111 \<le> r"
    by (simp add: area_True_iff(1) [OF num])
  then have "\<bar>x\<bar> \<le> 10 ^ 100" "\<bar>y\<bar> \<le> 10 ^ 100"
    using near_some_center_in_range [of x y] by blast+
  from area_in_range(2) [OF num this] show ?thesis
    by blast
qed

subsection \<open>A zero coordinate is far from every center\<close>

lemma zero_coordinate_far:
  fixes x y a b r :: real
  assumes "x = 0 \<or> y = 0" and "r < a * 111" and "r < b * 111" and "0 \<le> a" and "0 \<le> b"
  shows "(sqrt ((x - a) ^ 2 + (y - b) ^ 2) * 111 \<le> r) = False"
proof -
  define d where "d = sqrt ((x - a) ^ 2 + (y - b) ^ 2)"
  have lat: "\<bar>x - a\<bar> \<le> d" and lng: "\<bar>y - b\<bar> \<le> d"
    unfolding d_def by (rule real_sqrt_ge_abs1, rule real_sqrt_ge_abs2)
  from assms(1) have "r < d * 111"
  proof
    assume "x = 0"
    with lat assms(4) have "a \<le> d" by simp
    with assms(2) show ?thesis by linarith
  next
    assume "y = 0"
    with lng assms(5) have "b \<le> d" by simp
    with assms(3) show ?thesis by linarith
  qed
  then show ?thesis
    unfolding d_def by simp
qed

lemma zero_coordinate_rural:
  assumes "num_of lat = Inr x" and "num_of lng = Inr y" and "x = 0 \<or> y = 0"
  shows "is_urban_area lat lng = Inr urban \<Longrightarrow> \<not> urban"
    and "is_coastal_area lat lng = Inr coastal \<Longrightarrow> \<not> coastal"
proof -
  assume "is_urban_area lat lng = Inr urban"
  from area_sound(1) [OF assms(1,2) this] show "\<not> urban"
    by (simp add: urban_centers_def zero_coordinate_far [OF assms(3)])
next
  assume "is_coastal_area lat lng = Inr coastal"
  from area_sound(2) [OF assms(1,2) this] show "\<not> coastal"
    by (simp add: coastal_regions_def zero_coordinate_far [OF assms(3)])
qed

subsection \<open>What a request leaves unchanged\<close>

lemma uniform_frame [simp]:
  "processor (snd (uniform a b s)) = processor s"
  "logged (snd (uniform a b s)) = logged s"
  "now_iso (snd (uniform a b s)) = now_iso s"
  "tokenizer (snd (uniform a b s)) = tokenizer s"
  "exc_text (snd (uniform a b s)) = exc_text s"
  by (simp_all add: uniform_def)

lemma choice_frame [simp]:
  "processor (snd (choice xs s)) = processor s"
  "logged (snd (choice xs s)) = logged s"
  "now_iso (snd (choice xs s)) = now_iso s"
  "tokenizer (snd (choice xs s)) = tokenizer s"
  "exc_text (snd (choice xs s)) = exc_text s"
  by (simp_all add: choice_def)

lemma logger_frame [simp]:
  "processor (logger ev s) = processor s"
  "logged (logger ev s) = logged s @ [ev]"
  "rng (logger ev s) = rng s"
  "now_iso (logger ev s) = now_iso s"
  "tokenizer (logger ev s) = tokenizer s"
  "exc_text (logger ev s) = exc_text s"
  by (simp_all add: logger_def)

lemma vegetation_frame [simp]:
  "processor (snd (simulate_vegetation_health_analysis sd t s)) = processor s"
  "logged (snd (simulate_vegetation_health_analysis sd t s)) = logged s"
  by (simp_all add: simulate_vegetation_health_analysis_def split_beta)

lemma change_frame [simp]:
  "processor (snd (simulate_change_detection_analysis lat lng s)) = processor s"
  "logged (snd (simulate_change_detection_analysis lat lng s)) = logged s"
  by (simp_all add: simulate_change_detection_analysis_def split_beta)

lemma environmental_frame [simp]:
  "processor (snd (simulate_environmental_assessment q t s)) = processor s"
  "logged (snd (simulate_environmental_assessment q t s)) = logged s"
  by (simp_all add: simulate_environmental_assessment_def split_beta)

lemma land_use_frame [simp]:
  "processor (snd (simulate_land_use_classification lat lng t s)) = processor s"
  "logged (snd (simulate_land_use_classification lat lng t s)) = logged s"
  by (simp_all add: simulate_land_use_classification_def split_beta split: sum.splits)

subsection \<open>The branch of the land-use classification\<close>

text \<open>The outcome of the land-use classification, as far as the branch goes.\<close>

lemma land_use_branch:
  "map_sum id (field ''primary_class'') (fst (simulate_land_use_classification lat lng t s)) =
     (case is_urban_area lat lng of
        Inl e \<Rightarrow> Inl e
      | Inr urban \<Rightarrow>
         (case is_coastal_area lat lng of
            Inl e \<Rightarrow> Inl e
          | Inr coastal \<Rightarrow>
              Inr (Some (JStr (if urban then ''urban''
                               else if coastal then ''coastal_mixed''
                               else ''agricultural'')))))"
  by (simp add: simulate_land_use_classification_def split_beta split: sum.splits)

lemma land_use_result:
  assumes "fst (simulate_land_use_classification lat lng t s) = Inr lu"
  shows "\<exists>urban coastal. is_urban_area lat lng = Inr urban \<and> is_coastal_area lat lng = Inr coastal \<and>
           field ''primary_class'' lu =
             Some (JStr (if urban then ''urban''
                         else if coastal then ''coastal_mixed'' else ''agricultural''))"
proof -
  have *: "(case is_urban_area lat lng of
        Inl e \<Rightarrow> Inl e
      | Inr urban \<Rightarrow>
         (case is_coastal_area lat lng of
            Inl e \<Rightarrow> Inl e
          | Inr coastal \<Rightarrow>
              Inr (Some (JStr (if urban then ''urban''
                               else if coastal then ''coastal_mixed''
                               else ''agricultural''))))) = Inr (field ''primary_class'' lu)"
    unfolding land_use_branch [of lat lng t s, symmetric] assms by simp
  show ?thesis
  proof (cases "is_urban_area lat lng")
    case (Inl e)
    with * show ?thesis by simp
  next
    case u: (Inr urban)
    show ?thesis
    proof (cases "is_coastal_area lat lng")
      case (Inl e)
      with * u show ?thesis by simp
    next
      case c: (Inr coastal)
      from * have "field ''primary_class'' lu =
             Some (JStr (if urban then ''urban''
                         else if coastal then ''coastal_mixed'' else ''agricultural''))"
        unfolding u c by (simp only: sum.case sum.inject)
      with u c show ?thesis by blast
    qed
  qed
qed

text \<open>
  Claim C1. \<open>is_urban_area\<close> and \<open>is_coastal_area\<close> take the coordinates and nothing
  else, so they are functions of \<open>(lat, lng)\<close>; the branch of
  \<open>simulate_land_use_classification\<close>, read off \<open>primary_class\<close> (or the exception
  raised), is the same in any two runs on the same coordinates, whatever the samples of
  the random generator, the rest of the world and the analysis type are, and it is the
  branch those two functions select.
\<close>

theorem branch_deterministic:
  "map_sum id (field ''primary_class'') (fst (simulate_land_use_classification lat lng t s)) =
   map_sum id (field ''primary_class'') (fst (simulate_land_use_classification lat lng t' s')) \<and>
   map_sum id (field ''primary_class'') (fst (simulate_land_use_classification lat lng t s)) =
     (case is_urban_area lat lng of
        Inl e \<Rightarrow> Inl e
      | Inr urban \<Rightarrow>
         (case is_coastal_area lat lng of
            Inl e \<Rightarrow> Inl e
          | Inr coastal \<Rightarrow>
              Inr (Some (JStr (if urban then ''urban''
                               else if coastal then ''coastal_mixed''
                               else ''agricultural'')))))"
  by (simp only: land_use_branch)

text \<open>Two runs at Pondicherry with different samples and analysis types: coastal both times.\<close>

theorem branch_deterministic_witness:
  "map_sum id (field ''primary_class'')
     (fst (simulate_land_use_classification (JFloat 11.9416) (JFloat 79.8083) (JStr ''general'')
        (initial_world (\<lambda>n. 0)))) =
   map_sum id (field ''primary_class'')
     (fst (simulate_land_use_classification (JFloat 11.9416) (JFloat 79.8083) (JStr ''fishing'')
        (initial_world (\<lambda>n. 1 / 2)))) \<and>
   map_sum id (field ''primary_class'')
     (fst (simulate_land_use_classification (JFloat 11.9416) (JFloat 79.8083) (JStr ''general'')
        (initial_world (\<lambda>n. 0)))) = Inr (Some (JStr ''coastal_mixed''))"
proof -
  have "num_of (JFloat 11.9416) = Inr 11.9416" and "num_of (JFloat 79.8083) = Inr 79.8083"
    by simp_all
  from area_in_range [OF this]
  have "is_urban_area (JFloat 11.9416) (JFloat 79.8083) = Inr False"
    and "is_coastal_area (JFloat 11.9416) (JFloat 79.8083) = Inr True"
    by (simp_all add: urban_centers_def coastal_regions_def dist_le_iff power2_eq_square)
  with branch_deterministic [of "JFloat 11.9416" "JFloat 79.8083" "JStr ''general''"
      "initial_world (\<lambda>n. 0)" "JStr ''fishing''" "initial_world (\<lambda>n. 1 / 2)"]
  show ?thesis
    by auto
qed

lemma simulate_exc_text [simp]:
  "exc_text (snd (simulate_vegetation_health_analysis sd t s)) = exc_text s"
  "exc_text (snd (simulate_change_detection_analysis lat lng s)) = exc_text s"
  "exc_text (snd (simulate_environmental_assessment q t s)) = exc_text s"
  "exc_text (snd (simulate_land_use_classification lat lng t s)) = exc_text s"
  by (simp_all add: simulate_vegetation_health_analysis_def
      simulate_change_detection_analysis_def simulate_environmental_assessment_def
      simulate_land_use_classification_def split_beta split: sum.splits)

subsection \<open>The demo analysis\<close>

lemma demo_outcome:
  "map_sum id (\<lambda>_. ()) (fst (generate_demo_analysis q sd c t s)) =
     (case dict_get c ''lat'' (JInt 0) of
        Inl e \<Rightarrow> Inl e
      | Inr lat \<Rightarrow>
     (case dict_get c ''lng'' (JInt 0) of
        Inl e \<Rightarrow> Inl e
      | Inr lng \<Rightarrow>
     (case is_urban_area lat lng of
        Inl e \<Rightarrow> Inl e
      | Inr urban \<Rightarrow>
     (case is_coastal_area lat lng of
        Inl e \<Rightarrow> Inl e
      | Inr coastal \<Rightarrow>
     (case generate_geospatial_insights q t of
        Inl e \<Rightarrow> Inl e
      | Inr insights \<Rightarrow>
     (case assess_environmental_risks lat lng t of
        Inl e \<Rightarrow> Inl e
      | Inr risks \<Rightarrow> Inr ()))))))"
  by (simp add: generate_demo_analysis_def Let_def split_beta
      simulate_land_use_classification_def split: sum.splits)

lemma demo_error_independent:
  assumes "fst (generate_demo_analysis q sd c t s) = Inl e"
  shows "fst (generate_demo_analysis q sd c t s') = Inl e"
proof -
  have "map_sum id (\<lambda>_. ()) (fst (generate_demo_analysis q sd c t s')) =
        map_sum id (\<lambda>_. ()) (fst (generate_demo_analysis q sd c t s))"
    by (simp only: demo_outcome)
  with assms show ?thesis
    by (cases "fst (generate_demo_analysis q sd c t s')") simp_all
qed

lemma demo_result:
  assumes "fst (generate_demo_analysis q sd c t s) = Inr obj"
  shows "\<exists>lat lng lu veg chg env conf ins risks ts pt.
      dict_get c ''lat'' (JInt 0) = Inr lat \<and> dict_get c ''lng'' (JInt 0) = Inr lng \<and>
      fst (simulate_land_use_classification lat lng t (logger GeneratingDemo s)) = Inr lu \<and>
      generate_geospatial_insights q t = Inr ins \<and>
      assess_environmental_risks lat lng t = Inr risks \<and>
      obj = JObj
        [(''success'', JBool True),
         (''model'', JStr ''TerraMind-1.0-large''),
         (''mode'', JStr ''demo''),
         (''analysis'', JObj
            [(''land_use_classification'', lu),
             (''vegetation_health'', veg),
             (''change_detection'', chg),
             (''environmental_assessment'', env),
             (''multimodal_confidence'', JFloat conf),
             (''geospatial_insights'', JArr (map JStr ins)),
             (''risk_factors'', JArr risks)]),
         (''metadata'', JObj
            [(''timestamp'', JStr ts),
             (''coordinates'', c),
             (''analysis_type'', t),
             (''modalities_processed'',
                JArr [JStr ''optical'', JStr ''sar'', JStr ''climate'', JStr ''text'']),
             (''processing_time'', JFloat pt)])]"
  using assms
  by (auto simp: generate_demo_analysis_def Let_def split_beta split: sum.splits)

lemma demo_frame [simp]:
  "processor (snd (generate_demo_analysis q sd c t s)) = processor s"
  "logged (snd (generate_demo_analysis q sd c t s)) = logged s @ [GeneratingDemo]"
  by (simp_all add: generate_demo_analysis_def Let_def split_beta split: sum.splits)

lemma demo_exc_text [simp]:
  "exc_text (snd (generate_demo_analysis q sd c t s)) = exc_text s"
  by (simp add: generate_demo_analysis_def Let_def split_beta split: sum.splits)

lemma demo_success_mode:
  assumes "fst (generate_demo_analysis q sd c t s) = Inr obj"
  shows "field ''success'' obj = Some (JBool True)" and "field ''mode'' obj = Some (JStr ''demo'')"
  using demo_result [OF assms] by auto

lemma demo_conforms:
  assumes "fst (generate_demo_analysis q sd c t s) = Inr obj"
  shows "conforms_to_schema obj"
  using demo_result [OF assms]
  by (auto simp: conforms_to_schema_def has_fields_def)

subsection \<open>The real analysis and the fallback\<close>

lemma run_frame [simp]:
  "processor (snd (run_terramind_analysis q sd c t s)) = processor s"
  "logged (snd (run_terramind_analysis q sd c t s)) = logged s @ [RunningReal]"
  by (simp_all add: run_terramind_analysis_def Let_def split: sum.splits option.splits)

lemma run_exc_text [simp]:
  "exc_text (snd (run_terramind_analysis q sd c t s)) = exc_text s"
  by (simp add: run_terramind_analysis_def Let_def split: sum.splits option.splits)

lemma run_always_raises:
  "\<exists>e. run_terramind_analysis q sd c t s = (Inl e, logger RunningReal s)"
  by (simp add: run_terramind_analysis_def Let_def split: sum.splits option.splits)

lemma analyze_frame [simp]:
  "processor (snd (analyze_geospatial_data q sd c t s)) = processor s"
  by (simp add: analyze_geospatial_data_def split_beta split: sum.splits)

lemma analyze_exc_text [simp]:
  "exc_text (snd (analyze_geospatial_data q sd c t s)) = exc_text s"
  by (simp add: analyze_geospatial_data_def split_beta split: sum.splits)

lemma analyze_in_demo_mode:
  assumes "demo_mode (processor s) \<or> \<not> model_loaded (processor s)"
  shows "fst (analyze_geospatial_data q sd c t s) = fst (generate_demo_analysis q sd c t s)"
    and "count_list (logged (snd (analyze_geospatial_data q sd c t s))) RunningReal =
         count_list (logged s) RunningReal"
proof -
  show "fst (analyze_geospatial_data q sd c t s) = fst (generate_demo_analysis q sd c t s)"
  proof (cases "fst (generate_demo_analysis q sd c t s)")
    case (Inl e)
    then have "fst (generate_demo_analysis q sd c t
                 (logger (AnalysisError e) (snd (generate_demo_analysis q sd c t s)))) = Inl e"
      by (rule demo_error_independent)
    with Inl assms show ?thesis
      by (simp add: analyze_geospatial_data_def split_beta)
  next
    case (Inr obj)
    with assms show ?thesis
      by (simp add: analyze_geospatial_data_def split_beta)
  qed
  show "count_list (logged (snd (analyze_geospatial_data q sd c t s))) RunningReal =
        count_list (logged s) RunningReal"
    using assms
    by (simp add: analyze_geospatial_data_def split_beta split: sum.splits)
qed

lemma analyze_in_production:
  assumes "\<not> demo_mode (processor s)" and "model_loaded (processor s)"
  shows "count_list (logged (snd (analyze_geospatial_data q sd c t s))) RunningReal =
         Suc (count_list (logged s) RunningReal)"
proof -
  obtain e where "run_terramind_analysis q sd c t s = (Inl e, logger RunningReal s)"
    using run_always_raises by blast
  with assms show ?thesis
    by (simp add: analyze_geospatial_data_def split_beta)
qed

lemma init_production:
  "processor (TerraMindProcessor_init (Some ''False'') Loads (initial_world f)) =
     \<lparr>model_name = ''ibm-esa-geospatial/TerraMind-1.0-large'', model_loaded = True,
      demo_mode = False\<rparr>"
  by (simp add: TerraMindProcessor_init_def initial_world_def lower_def lower_char_def Let_def)

lemma init_default:
  "processor (TerraMindProcessor_init None load (initial_world f)) =
     \<lparr>model_name = ''ibm-esa-geospatial/TerraMind-1.0-large'', model_loaded = False,
      demo_mode = True\<rparr>"
  by (simp add: TerraMindProcessor_init_def initial_world_def lower_def lower_char_def Let_def)

lemma init_load_failure:
  "processor (TerraMindProcessor_init (Some ''false'') (LoadFails e) (initial_world f)) =
     \<lparr>model_name = ''ibm-esa-geospatial/TerraMind-1.0-large'', model_loaded = False,
      demo_mode = True\<rparr>"
  by (simp add: TerraMindProcessor_init_def initial_world_def lower_def lower_char_def Let_def)

text \<open>When the import fails, the failure is the first message, and demo mode is on.\<close>

lemma init_import_failure:
  "logged (TerraMindProcessor_init (Some ''false'') (ImportFails e) (initial_world f)) =
     [LoadFailed e, DemoModeNotice] \<and>
   logged (TerraMindProcessor_init (Some ''false'') (LoadFails e) (initial_world f)) =
     [LoadingModel, LoadFailed e, DemoModeNotice] \<and>
   demo_mode (processor
     (TerraMindProcessor_init (Some ''false'') (ImportFails e) (initial_world f)))"
  by (simp add: TerraMindProcessor_init_def initial_world_def lower_def lower_char_def Let_def
      logger_def)



subsection \<open>The endpoint\<close>

lemma try_frame [simp]:
  "processor (snd (analyze_geospatial_try g s)) = processor s"
  "exc_text (snd (analyze_geospatial_try g s)) = exc_text s"
  by (simp_all add: analyze_geospatial_try_def split_beta split: sum.splits)

lemma endpoint_frame [simp]:
  "processor (snd (analyze_geospatial g s)) = processor s"
  by (simp add: analyze_geospatial_def split_beta split: sum.splits)

text \<open>
  Claim C4. A request whose parsed body is falsy is answered with status 400 and the body
  \<^verbatim>\<open>{"error": "No data provided"}\<close>; whenever the handling raises, the answer is status
  500 with \<^verbatim>\<open>"error": "Analysis failed"\<close>, the text of the exception and
  \<^verbatim>\<open>"fallback": true\<close>.
\<close>

theorem malformed_requests:
  "(\<not> truthy data \<longrightarrow>
      fst (analyze_geospatial (Inr data) s) =
        (400, JObj [(''error'', JStr ''No data provided'')])) \<and>
   (fst (analyze_geospatial_try get_json s) = Inl e \<longrightarrow>
      fst (analyze_geospatial get_json s) =
        (500, JObj [(''error'', JStr ''Analysis failed''),
                    (''message'', JStr (exc_text s e)),
                    (''fallback'', JBool True)]))"
proof (intro conjI impI)
  assume "\<not> truthy data"
  then have "analyze_geospatial_try (Inr data) s =
               (Inr (400, JObj [(''error'', JStr ''No data provided'')]), s)"
    by (simp add: analyze_geospatial_try_def)
  then show "fst (analyze_geospatial (Inr data) s) =
               (400, JObj [(''error'', JStr ''No data provided'')])"
    by (simp add: analyze_geospatial_def)
next
  assume "fst (analyze_geospatial_try get_json s) = Inl e"
  then show "fst (analyze_geospatial get_json s) =
        (500, JObj [(''error'', JStr ''Analysis failed''),
                    (''message'', JStr (exc_text s e)),
                    (''fallback'', JBool True)])"
    by (simp add: analyze_geospatial_def split_beta)
qed

text \<open>An empty object is falsy; a list is truthy but has no \<^verbatim>\<open>get\<close>.\<close>

theorem malformed_requests_witness:
  "\<not> truthy (JObj []) \<and>
   fst (analyze_geospatial (Inr (JObj [])) (initial_world (\<lambda>n. 0))) =
     (400, JObj [(''error'', JStr ''No data provided'')]) \<and>
   fst (analyze_geospatial_try (Inr (JArr [JInt 1])) (initial_world (\<lambda>n. 0))) =
     Inl AttributeError \<and>
   fst (analyze_geospatial (Inr (JArr [JInt 1])) (initial_world (\<lambda>n. 0))) =
     (500, JObj [(''error'', JStr ''Analysis failed''),
                 (''message'', JStr ''error''),
                 (''fallback'', JBool True)])"
proof -
  have raised: "fst (analyze_geospatial_try (Inr (JArr [JInt 1])) (initial_world (\<lambda>n. 0))) =
               Inl AttributeError"
    by (simp add: analyze_geospatial_try_def)
  have msg: "exc_text (initial_world (\<lambda>n. 0)) AttributeError = ''error''"
    by (simp add: initial_world_def)
  from malformed_requests [of "JObj []" "initial_world (\<lambda>n. 0)" "Inr (JArr [JInt 1])" AttributeError]
    raised msg show ?thesis
    by simp
qed

subsection \<open>When the demo analysis returns\<close>

lemma insights_returns:
  "\<exists>ins. generate_geospatial_insights (JStr qs) t = Inr ins"
  by (simp add: generate_geospatial_insights_def)

lemma risks_given:
  assumes "is_urban_area lat lng = Inr urban" and "is_coastal_area lat lng = Inr coastal"
  shows "assess_environmental_risks lat lng t =
           Inr (if urban then
                  [risk ''air_pollution'' ''moderate'' 0.82,
                   risk ''urban_heat_island'' ''high'' 0.78,
                   risk ''water_stress'' ''moderate'' 0.75]
                else if coastal then
                  [risk ''sea_level_rise'' ''moderate'' 0.85,
                   risk ''coastal_erosion'' ''low'' 0.72,
                   risk ''storm_surge'' ''moderate'' 0.80]
                else
                  [risk ''drought_risk'' ''low'' 0.88,
                   risk ''soil_degradation'' ''moderate'' 0.75,
                   risk ''biodiversity_loss'' ''low'' 0.82])"
  unfolding assess_environmental_risks_def assms by simp

lemma land_use_returns:
  assumes "is_urban_area lat lng = Inr urban" and "is_coastal_area lat lng = Inr coastal"
  shows "\<exists>lu. fst (simulate_land_use_classification lat lng t s) = Inr lu"
proof -
  have "\<exists>pc. map_sum id (field ''primary_class'')
          (fst (simulate_land_use_classification lat lng t s)) = Inr pc"
    unfolding land_use_branch assms by simp
  then show ?thesis
    by (cases "fst (simulate_land_use_classification lat lng t s)") simp_all
qed

lemma demo_returns:
  assumes "is_urban_area (case map_of kvs ''lat'' of None \<Rightarrow> JInt 0 | Some v \<Rightarrow> v)
             (case map_of kvs ''lng'' of None \<Rightarrow> JInt 0 | Some v \<Rightarrow> v) = Inr urban"
    and "is_coastal_area (case map_of kvs ''lat'' of None \<Rightarrow> JInt 0 | Some v \<Rightarrow> v)
             (case map_of kvs ''lng'' of None \<Rightarrow> JInt 0 | Some v \<Rightarrow> v) = Inr coastal"
  shows "\<exists>obj. fst (generate_demo_analysis (JStr qs) sd (JObj kvs) t s) = Inr obj"
proof -
  obtain ins where "generate_geospatial_insights (JStr qs) t = Inr ins"
    using insights_returns by blast
  then have "map_sum id (\<lambda>_. ()) (fst (generate_demo_analysis (JStr qs) sd (JObj kvs) t s)) =
               Inr ()"
    unfolding demo_outcome by (simp add: assms risks_given [OF assms])
  then show ?thesis
    by (cases "fst (generate_demo_analysis (JStr qs) sd (JObj kvs) t s)") simp_all
qed

lemma demo_returns_in_range:
  assumes "num_of (case map_of kvs ''lat'' of None \<Rightarrow> JInt 0 | Some v \<Rightarrow> v) = Inr x"
    and "num_of (case map_of kvs ''lng'' of None \<Rightarrow> JInt 0 | Some v \<Rightarrow> v) = Inr y"
    and "\<bar>x\<bar> \<le> 10 ^ 100" and "\<bar>y\<bar> \<le> 10 ^ 100"
  shows "\<exists>obj. fst (generate_demo_analysis (JStr qs) sd (JObj kvs) t s) = Inr obj"
  by (rule demo_returns) (rule area_in_range [OF assms])+

lemma demo_returns_only_if:
  assumes "fst (generate_demo_analysis q sd c t s) = Inr obj"
  shows "\<exists>qs kvs x y. q = JStr qs \<and> c = JObj kvs \<and>
           num_of (case map_of kvs ''lat'' of None \<Rightarrow> JInt 0 | Some v \<Rightarrow> v) = Inr x \<and>
           num_of (case map_of kvs ''lng'' of None \<Rightarrow> JInt 0 | Some v \<Rightarrow> v) = Inr y"
proof -
  from demo_result [OF assms] obtain lat lng lu ins where
    lat: "dict_get c ''lat'' (JInt 0) = Inr lat" and lng: "dict_get c ''lng'' (JInt 0) = Inr lng"
    and lu: "fst (simulate_land_use_classification lat lng t (logger GeneratingDemo s)) = Inr lu"
    and ins: "generate_geospatial_insights q t = Inr ins"
    by blast
  from ins obtain qs where "q = JStr qs"
    by (cases q) (simp_all add: generate_geospatial_insights_def)
  moreover from lat obtain kvs where "c = JObj kvs"
    by (cases c) simp_all
  moreover from land_use_result [OF lu] obtain x y where "num_of lat = Inr x" "num_of lng = Inr y"
    using area_returns_numbers(1) by blast
  ultimately show ?thesis
    using lat lng by auto
qed

text \<open>
  Claim C5 fails as stated: an object with every field of the schema and
  \<open>success = false\<close> is never returned, so the presence of the fields is not the only
  invariant of the output.
\<close>

theorem schema_is_not_the_only_invariant:
  "conforms_to_schema
     (JObj [(''success'', JBool False), (''model'', JNull), (''mode'', JNull),
            (''analysis'', JObj
               [(''land_use_classification'', JNull), (''vegetation_health'', JNull),
                (''change_detection'', JNull), (''environmental_assessment'', JNull),
                (''multimodal_confidence'', JNull), (''geospatial_insights'', JNull),
                (''risk_factors'', JNull)]),
            (''metadata'', JNull)]) \<and>
   \<not> (\<exists>q sd c t s.
        fst (generate_demo_analysis q sd c t s) =
          Inr (JObj [(''success'', JBool False), (''model'', JNull), (''mode'', JNull),
            (''analysis'', JObj
               [(''land_use_classification'', JNull), (''vegetation_health'', JNull),
                (''change_detection'', JNull), (''environmental_assessment'', JNull),
                (''multimodal_confidence'', JNull), (''geospatial_insights'', JNull),
                (''risk_factors'', JNull)]),
            (''metadata'', JNull)]))"
proof (intro conjI notI)
  show "conforms_to_schema
     (JObj [(''success'', JBool False), (''model'', JNull), (''mode'', JNull),
            (''analysis'', JObj
               [(''land_use_classification'', JNull), (''vegetation_health'', JNull),
                (''change_detection'', JNull), (''environmental_assessment'', JNull),
                (''multimodal_confidence'', JNull), (''geospatial_insights'', JNull),
                (''risk_factors'', JNull)]),
            (''metadata'', JNull)])"
    by (simp add: conforms_to_schema_def has_fields_def)
next
  assume "\<exists>q sd c t s.
        fst (generate_demo_analysis q sd c t s) =
          Inr (JObj [(''success'', JBool False), (''model'', JNull), (''mode'', JNull),
            (''analysis'', JObj
               [(''land_use_classification'', JNull), (''vegetation_health'', JNull),
                (''change_detection'', JNull), (''environmental_assessment'', JNull),
                (''multimodal_confidence'', JNull), (''geospatial_insights'', JNull),
                (''risk_factors'', JNull)]),
            (''metadata'', JNull)])"
  then obtain q sd c t s where
    "fst (generate_demo_analysis q sd c t s) =
          Inr (JObj [(''success'', JBool False), (''model'', JNull), (''mode'', JNull),
            (''analysis'', JObj
               [(''land_use_classification'', JNull), (''vegetation_health'', JNull),
                (''change_detection'', JNull), (''environmental_assessment'', JNull),
                (''multimodal_confidence'', JNull), (''geospatial_insights'', JNull),
                (''risk_factors'', JNull)]),
            (''metadata'', JNull)])"
    by blast
  from demo_success_mode(1) [OF this] show False
    by simp
qed

text \<open>
  Claim C5, amended. Every object that \<open>generate_demo_analysis\<close> returns has the
  top-level fields success, model, mode, analysis and metadata, and its \<open>analysis\<close> has
  land_use_classification, vegetation_health, change_detection, environmental_assessment,
  multimodal_confidence, geospatial_insights and risk_factors; moreover \<open>success\<close> is
  true and \<open>mode\<close> is "demo". It returns only when the query is a string and the
  coordinates are an object whose \<open>lat\<close> and \<open>lng\<close> are numbers or absent, and it does
  return then when the numbers are at most \<open>10 ^ 100\<close> in magnitude.
\<close>

theorem demo_schema_conformance:
  "(fst (generate_demo_analysis q sd c t s) = Inr obj \<longrightarrow>
      conforms_to_schema obj \<and>
      field ''success'' obj = Some (JBool True) \<and>
      field ''mode'' obj = Some (JStr ''demo'') \<and>
      (\<exists>qs kvs x y. q = JStr qs \<and> c = JObj kvs \<and>
         num_of (case map_of kvs ''lat'' of None \<Rightarrow> JInt 0 | Some v \<Rightarrow> v) = Inr x \<and>
         num_of (case map_of kvs ''lng'' of None \<Rightarrow> JInt 0 | Some v \<Rightarrow> v) = Inr y)) \<and>
   (num_of (case map_of kvs' ''lat'' of None \<Rightarrow> JInt 0 | Some v \<Rightarrow> v) = Inr x' \<and>
    num_of (case map_of kvs' ''lng'' of None \<Rightarrow> JInt 0 | Some v \<Rightarrow> v) = Inr y' \<and>
    \<bar>x'\<bar> \<le> 10 ^ 100 \<and> \<bar>y'\<bar> \<le> 10 ^ 100 \<longrightarrow>
      (\<exists>obj'. fst (generate_demo_analysis (JStr qs') sd (JObj kvs') t s) = Inr obj'))"
proof (intro conjI impI)
  assume "fst (generate_demo_analysis q sd c t s) = Inr obj"
  then show "conforms_to_schema obj" "field ''success'' obj = Some (JBool True)"
    "field ''mode'' obj = Some (JStr ''demo'')"
    "\<exists>qs kvs x y. q = JStr qs \<and> c = JObj kvs \<and>
         num_of (case map_of kvs ''lat'' of None \<Rightarrow> JInt 0 | Some v \<Rightarrow> v) = Inr x \<and>
         num_of (case map_of kvs ''lng'' of None \<Rightarrow> JInt 0 | Some v \<Rightarrow> v) = Inr y"
    by (rule demo_conforms, rule demo_success_mode(1), rule demo_success_mode(2),
        rule demo_returns_only_if)
next
  assume "num_of (case map_of kvs' ''lat'' of None \<Rightarrow> JInt 0 | Some v \<Rightarrow> v) = Inr x' \<and>
    num_of (case map_of kvs' ''lng'' of None \<Rightarrow> JInt 0 | Some v \<Rightarrow> v) = Inr y' \<and>
    \<bar>x'\<bar> \<le> 10 ^ 100 \<and> \<bar>y'\<bar> \<le> 10 ^ 100"
  then show "\<exists>obj'. fst (generate_demo_analysis (JStr qs') sd (JObj kvs') t s) = Inr obj'"
    using demo_returns_in_range by blast
qed

text \<open>A well-formed request gets an object that conforms.\<close>

theorem demo_schema_conformance_witness:
  "\<exists>obj. fst (generate_demo_analysis (JStr ''fishing near the coast'') (JObj [])
             (JObj [(''lat'', JFloat 13.0827), (''lng'', JInt 80)]) (JStr ''fishing'')
             (initial_world (\<lambda>n. 1 / 2))) = Inr obj \<and>
         conforms_to_schema obj \<and>
         field ''success'' obj = Some (JBool True) \<and>
         field ''mode'' obj = Some (JStr ''demo'')"
proof -
  let ?kvs = "[(''lat'', JFloat 13.0827), (''lng'', JInt 80)]"
  let ?run = "generate_demo_analysis (JStr ''fishing near the coast'') (JObj []) (JObj ?kvs)
                (JStr ''fishing'') (initial_world (\<lambda>n. 1 / 2))"
  have "num_of (case map_of ?kvs ''lat'' of None \<Rightarrow> JInt 0 | Some v \<Rightarrow> v) = Inr 13.0827 \<and>
        num_of (case map_of ?kvs ''lng'' of None \<Rightarrow> JInt 0 | Some v \<Rightarrow> v) = Inr 80 \<and>
        \<bar>13.0827 :: real\<bar> \<le> 10 ^ 100 \<and> \<bar>80 :: real\<bar> \<le> 10 ^ 100"
    by (simp add: float_overflow_def)
  with demo_schema_conformance [where kvs' = ?kvs and x' = "13.0827" and y' = 80
      and qs' = "''fishing near the coast''" and sd = "JObj []" and t = "JStr ''fishing''"
      and s = "initial_world (\<lambda>n. 1 / 2)"]
  obtain obj where obj: "fst ?run = Inr obj"
    by blast
  with demo_schema_conformance [of "JStr ''fishing near the coast''" "JObj []" "JObj ?kvs"
      "JStr ''fishing''" "initial_world (\<lambda>n. 1 / 2)" obj]
  show ?thesis by blast
qed

subsection \<open>Demo mode and the processor\<close>

text \<open>
  Claim C6. In demo mode, or without a loaded model, \<open>analyze_geospatial_data\<close> returns
  the outcome of \<open>generate_demo_analysis\<close>; an object returned by
  \<open>generate_demo_analysis\<close> has \<open>success = true\<close> and \<open>mode = "demo"\<close>; and
  \<open>run_terramind_analysis\<close>, which logs \<open>RunningReal\<close> on entry, is entered only when
  demo mode is off and the model is loaded.
\<close>

theorem demo_mode_branch:
  "(demo_mode (processor s) \<or> \<not> model_loaded (processor s) \<longrightarrow>
      fst (analyze_geospatial_data q sd c t s) = fst (generate_demo_analysis q sd c t s)) \<and>
   (fst (generate_demo_analysis q sd c t s) = Inr obj \<longrightarrow>
      field ''success'' obj = Some (JBool True) \<and> field ''mode'' obj = Some (JStr ''demo'')) \<and>
   (count_list (logged (snd (analyze_geospatial_data q sd c t s))) RunningReal \<noteq>
      count_list (logged s) RunningReal \<longrightarrow>
      \<not> demo_mode (processor s) \<and> model_loaded (processor s))"
  using analyze_in_demo_mode [of s q sd c t] demo_success_mode [of q sd c t s obj]
  by blast

text \<open>
  The default processor is in demo mode and answers with a demo analysis; a production
  processor enters the real path.
\<close>

theorem demo_mode_branch_witness:
  "demo_mode (processor (TerraMindProcessor_init None Loads (initial_world (\<lambda>n. 0)))) \<and>
   fst (analyze_geospatial_data (JStr ''water'') (JObj []) (JObj []) (JStr ''general'')
          (TerraMindProcessor_init None Loads (initial_world (\<lambda>n. 0)))) =
   fst (generate_demo_analysis (JStr ''water'') (JObj []) (JObj []) (JStr ''general'')
          (TerraMindProcessor_init None Loads (initial_world (\<lambda>n. 0)))) \<and>
   (\<exists>obj. fst (generate_demo_analysis (JStr ''water'') (JObj []) (JObj []) (JStr ''general'')
             (TerraMindProcessor_init None Loads (initial_world (\<lambda>n. 0)))) = Inr obj \<and>
          field ''success'' obj = Some (JBool True) \<and> field ''mode'' obj = Some (JStr ''demo'')) \<and>
   count_list
     (logged (snd (analyze_geospatial_data (JStr ''water'') (JObj [])
        (JObj [(''lat'', JFloat 13.0827), (''lng'', JFloat 80.2707)]) (JStr ''general'')
        (TerraMindProcessor_init (Some ''False'') Loads (initial_world (\<lambda>n. 0))))))
     RunningReal \<noteq>
   count_list (logged (TerraMindProcessor_init (Some ''False'') Loads (initial_world (\<lambda>n. 0))))
     RunningReal \<and>
   \<not> demo_mode (processor (TerraMindProcessor_init (Some ''False'') Loads (initial_world (\<lambda>n. 0)))) \<and>
   model_loaded (processor (TerraMindProcessor_init (Some ''False'') Loads (initial_world (\<lambda>n. 0))))"
proof -
  let ?d = "TerraMindProcessor_init None Loads (initial_world (\<lambda>n. 0))"
  let ?p = "TerraMindProcessor_init (Some ''False'') Loads (initial_world (\<lambda>n. 0))"
  let ?c = "JObj [(''lat'', JFloat 13.0827), (''lng'', JFloat 80.2707)]"
  have demo: "demo_mode (processor ?d)"
    by (simp add: init_default)
  have prod: "\<not> demo_mode (processor ?p)" "model_loaded (processor ?p)"
    by (simp_all add: init_production)
  have invoked:
    "count_list (logged (snd (analyze_geospatial_data (JStr ''water'') (JObj []) ?c
        (JStr ''general'') ?p))) RunningReal \<noteq> count_list (logged ?p) RunningReal"
    using analyze_in_production [OF prod] by simp
  obtain obj where
    obj: "fst (generate_demo_analysis (JStr ''water'') (JObj []) (JObj []) (JStr ''general'') ?d) =
            Inr obj"
    using demo_returns_in_range [of "[]" 0 0 "''water''" "JObj []" "JStr ''general''" ?d]
    by (auto simp: float_overflow_def)
  from demo_mode_branch [of ?d "JStr ''water''" "JObj []" "JObj []" "JStr ''general''" obj]
    demo_mode_branch [of ?p "JStr ''water''" "JObj []" ?c "JStr ''general''"]
    demo prod invoked obj
  show ?thesis by blast
qed

text \<open>
  Claim C7. No function that serves a request changes the processor: \<open>model_name\<close>,
  \<open>model_loaded\<close> and \<open>demo_mode\<close> are after the call what they were before it. Only
  \<open>TerraMindProcessor_init\<close> writes them.
\<close>

theorem processor_never_mutated:
  "processor (snd (analyze_geospatial_data q sd c t s)) = processor s \<and>
   processor (snd (generate_demo_analysis q sd c t s)) = processor s \<and>
   processor (snd (run_terramind_analysis q sd c t s)) = processor s \<and>
   processor (snd (simulate_land_use_classification lat lng t s)) = processor s \<and>
   processor (snd (simulate_vegetation_health_analysis sd t s)) = processor s \<and>
   processor (snd (simulate_change_detection_analysis lat lng s)) = processor s \<and>
   processor (snd (simulate_environmental_assessment q t s)) = processor s \<and>
   processor (snd (analyze_geospatial get_json s)) = processor s"
  by simp

text \<open>The processors made by \<open>TerraMindProcessor_init\<close> are unchanged by a request.\<close>

theorem processor_never_mutated_witness:
  "processor (snd (analyze_geospatial
      (Inr (JObj [(''query'', JStr ''water''),
                  (''coordinates'', JObj [(''lat'', JFloat 13.0827), (''lng'', JFloat 80.2707)])]))
      (TerraMindProcessor_init None Loads (initial_world (\<lambda>n. 0))))) =
     \<lparr>model_name = ''ibm-esa-geospatial/TerraMind-1.0-large'', model_loaded = False,
      demo_mode = True\<rparr> \<and>
   processor (snd (analyze_geospatial_data (JStr ''water'') (JObj [])
      (JObj [(''lat'', JFloat 13.0827), (''lng'', JFloat 80.2707)]) (JStr ''general'')
      (TerraMindProcessor_init (Some ''False'') Loads (initial_world (\<lambda>n. 0))))) =
     \<lparr>model_name = ''ibm-esa-geospatial/TerraMind-1.0-large'', model_loaded = True,
      demo_mode = False\<rparr>"
  using processor_never_mutated
    [of "JStr ''water''" "JObj []" "JObj [(''lat'', JFloat 13.0827), (''lng'', JFloat 80.2707)]"
      "JStr ''general''" "TerraMindProcessor_init (Some ''False'') Loads (initial_world (\<lambda>n. 0))"]
    processor_never_mutated
    [of _ _ _ _ "TerraMindProcessor_init None Loads (initial_world (\<lambda>n. 0))" _ _
      "Inr (JObj [(''query'', JStr ''water''),
                  (''coordinates'', JObj [(''lat'', JFloat 13.0827), (''lng'', JFloat 80.2707)])])"]
  by (simp add: init_production init_default)

subsection \<open>Missing coordinates\<close>

text \<open>
  Claim C8. When the coordinates object lacks \<open>lat\<close> or \<open>lng\<close>, the missing value is
  read as 0, and an analysis that \<open>generate_demo_analysis\<close> returns has
  \<open>primary_class = "agricultural"\<close> and the rural risk list (drought_risk,
  soil_degradation, biodiversity_loss). It does return when the query is a string and the
  coordinate that is present is a number of magnitude at most \<open>10 ^ 100\<close>.
\<close>

theorem missing_coordinates_rural:
  assumes "map_of kvs ''lat'' = None \<or> map_of kvs ''lng'' = None"
  shows "(map_of kvs ''lat'' = None \<longrightarrow> dict_get (JObj kvs) ''lat'' (JInt 0) = Inr (JInt 0)) \<and>
         (map_of kvs ''lng'' = None \<longrightarrow> dict_get (JObj kvs) ''lng'' (JInt 0) = Inr (JInt 0)) \<and>
         (fst (generate_demo_analysis q sd (JObj kvs) t s) = Inr obj \<longrightarrow>
            (\<exists>a lu. field ''analysis'' obj = Some a \<and>
                    field ''land_use_classification'' a = Some lu \<and>
                    field ''primary_class'' lu = Some (JStr ''agricultural'') \<and>
                    field ''risk_factors'' a =
                      Some (JArr [risk ''drought_risk'' ''low'' 0.88,
                                  risk ''soil_degradation'' ''moderate'' 0.75,
                                  risk ''biodiversity_loss'' ''low'' 0.82]))) \<and>
         (num_of (case map_of kvs ''lat'' of None \<Rightarrow> JInt 0 | Some v \<Rightarrow> v) = Inr x \<and>
          num_of (case map_of kvs ''lng'' of None \<Rightarrow> JInt 0 | Some v \<Rightarrow> v) = Inr y \<and>
          \<bar>x\<bar> \<le> 10 ^ 100 \<and> \<bar>y\<bar> \<le> 10 ^ 100 \<longrightarrow>
            (\<exists>obj'. fst (generate_demo_analysis (JStr qs) sd (JObj kvs) t s) = Inr obj'))"
proof (intro conjI impI)
  assume ret: "fst (generate_demo_analysis q sd (JObj kvs) t s) = Inr obj"
  from demo_result [OF ret] obtain lat lng lu veg chg env conf ins risks ts pt where
    lat: "dict_get (JObj kvs) ''lat'' (JInt 0) = Inr lat"
    and lng: "dict_get (JObj kvs) ''lng'' (JInt 0) = Inr lng"
    and lu: "fst (simulate_land_use_classification lat lng t (logger GeneratingDemo s)) = Inr lu"
    and risks: "assess_environmental_risks lat lng t = Inr risks"
    and obj: "obj = JObj
        [(''success'', JBool True),
         (''model'', JStr ''TerraMind-1.0-large''),
         (''mode'', JStr ''demo''),
         (''analysis'', JObj
            [(''land_use_classification'', lu),
             (''vegetation_health'', veg),
             (''change_detection'', chg),
             (''environmental_assessment'', env),
             (''multimodal_confidence'', JFloat conf),
             (''geospatial_insights'', JArr (map JStr ins)),
             (''risk_factors'', JArr risks)]),
         (''metadata'', JObj
            [(''timestamp'', JStr ts),
             (''coordinates'', JObj kvs),
             (''analysis_type'', t),
             (''modalities_processed'',
                JArr [JStr ''optical'', JStr ''sar'', JStr ''climate'', JStr ''text'']),
             (''processing_time'', JFloat pt)])]"
    by blast
  from land_use_result [OF lu] obtain urban coastal where
    u: "is_urban_area lat lng = Inr urban" and c: "is_coastal_area lat lng = Inr coastal"
    and pc: "field ''primary_class'' lu =
             Some (JStr (if urban then ''urban''
                         else if coastal then ''coastal_mixed'' else ''agricultural''))"
    by blast
  from area_returns_numbers(1) [OF u] obtain x' y' where
    num: "num_of lat = Inr x'" "num_of lng = Inr y'"
    by blast
  from assms lat lng num have zero: "x' = 0 \<or> y' = 0"
    by (auto simp: float_overflow_def)
  from zero_coordinate_rural [OF num zero] u c have rural: "\<not> urban" "\<not> coastal"
    by blast+
  from risks_given [OF u c, of t] risks rural
  have "risks = [risk ''drought_risk'' ''low'' 0.88,
                 risk ''soil_degradation'' ''moderate'' 0.75,
                 risk ''biodiversity_loss'' ''low'' 0.82]"
    by simp
  with pc rural obj
  show "\<exists>a lu. field ''analysis'' obj = Some a \<and>
                    field ''land_use_classification'' a = Some lu \<and>
                    field ''primary_class'' lu = Some (JStr ''agricultural'') \<and>
                    field ''risk_factors'' a =
                      Some (JArr [risk ''drought_risk'' ''low'' 0.88,
                                  risk ''soil_degradation'' ''moderate'' 0.75,
                                  risk ''biodiversity_loss'' ''low'' 0.82])"
    by simp
next
  assume "num_of (case map_of kvs ''lat'' of None \<Rightarrow> JInt 0 | Some v \<Rightarrow> v) = Inr x \<and>
          num_of (case map_of kvs ''lng'' of None \<Rightarrow> JInt 0 | Some v \<Rightarrow> v) = Inr y \<and>
          \<bar>x\<bar> \<le> 10 ^ 100 \<and> \<bar>y\<bar> \<le> 10 ^ 100"
  then show "\<exists>obj'. fst (generate_demo_analysis (JStr qs) sd (JObj kvs) t s) = Inr obj'"
    using demo_returns_in_range by blast
qed simp_all

text \<open>Chennai's latitude alone: the longitude is read as 0 and the area is rural.\<close>

theorem missing_coordinates_rural_witness:
  "(map_of [(''lat'', JFloat 13.0827)] ''lat'' = None \<or>
    map_of [(''lat'', JFloat 13.0827)] ''lng'' = None) \<and>
   dict_get (JObj [(''lat'', JFloat 13.0827)]) ''lng'' (JInt 0) = Inr (JInt 0) \<and>
   (\<exists>obj a lu.
      fst (generate_demo_analysis (JStr ''water'') (JObj []) (JObj [(''lat'', JFloat 13.0827)])
             (JStr ''general'') (initial_world (\<lambda>n. 0))) = Inr obj \<and>
      field ''analysis'' obj = Some a \<and>
      field ''land_use_classification'' a = Some lu \<and>
      field ''primary_class'' lu = Some (JStr ''agricultural'') \<and>
      field ''risk_factors'' a =
        Some (JArr [risk ''drought_risk'' ''low'' 0.88,
                    risk ''soil_degradation'' ''moderate'' 0.75,
                    risk ''biodiversity_loss'' ''low'' 0.82]))"
proof -
  let ?kvs = "[(''lat'', JFloat 13.0827)]"
  let ?w = "initial_world (\<lambda>n. 0)"
  have missing: "map_of ?kvs ''lat'' = None \<or> map_of ?kvs ''lng'' = None"
    by simp
  have nums: "num_of (case map_of ?kvs ''lat'' of None \<Rightarrow> JInt 0 | Some v \<Rightarrow> v) = Inr 13.0827 \<and>
              num_of (case map_of ?kvs ''lng'' of None \<Rightarrow> JInt 0 | Some v \<Rightarrow> v) = Inr 0 \<and>
              \<bar>13.0827 :: real\<bar> \<le> 10 ^ 100 \<and> \<bar>0 :: real\<bar> \<le> 10 ^ 100"
    by (simp add: float_overflow_def)
  from missing_coordinates_rural [OF missing, where x = "13.0827" and y = 0 and qs = "''water''"
      and sd = "JObj []" and t = "JStr ''general''" and s = ?w] nums
  obtain obj where
    obj: "fst (generate_demo_analysis (JStr ''water'') (JObj []) (JObj ?kvs) (JStr ''general'') ?w) =
            Inr obj"
    by blast
  from missing_coordinates_rural [OF missing, where q = "JStr ''water''" and sd = "JObj []"
      and t = "JStr ''general''" and s = ?w and obj = obj] obj missing
  show ?thesis
    by auto
qed

subsection \<open>Land use and risks\<close>

text \<open>
  Claim C9. Whenever both return, the \<open>primary_class\<close> of
  \<open>simulate_land_use_classification\<close> and the list of \<open>assess_environmental_risks\<close> name
  the same branch: urban with the urban risks, coastal_mixed with the coastal risks,
  agricultural with the rural risks; an urban area is classified urban also when it is
  coastal.
\<close>

theorem land_use_and_risks_agree:
  assumes "fst (simulate_land_use_classification lat lng t s) = Inr lu"
    and "assess_environmental_risks lat lng t' = Inr rs"
  shows "(field ''primary_class'' lu = Some (JStr ''urban'')) =
           (rs = [risk ''air_pollution'' ''moderate'' 0.82,
                  risk ''urban_heat_island'' ''high'' 0.78,
                  risk ''water_stress'' ''moderate'' 0.75]) \<and>
         (field ''primary_class'' lu = Some (JStr ''coastal_mixed'')) =
           (rs = [risk ''sea_level_rise'' ''moderate'' 0.85,
                  risk ''coastal_erosion'' ''low'' 0.72,
                  risk ''storm_surge'' ''moderate'' 0.80]) \<and>
         (field ''primary_class'' lu = Some (JStr ''agricultural'')) =
           (rs = [risk ''drought_risk'' ''low'' 0.88,
                  risk ''soil_degradation'' ''moderate'' 0.75,
                  risk ''biodiversity_loss'' ''low'' 0.82]) \<and>
         (is_urban_area lat lng = Inr True \<longrightarrow>
            field ''primary_class'' lu = Some (JStr ''urban'')) \<and>
         (is_urban_area lat lng = Inr False \<and> is_coastal_area lat lng = Inr True \<longrightarrow>
            field ''primary_class'' lu = Some (JStr ''coastal_mixed''))"
proof -
  from land_use_result [OF assms(1)] obtain urban coastal where
    u: "is_urban_area lat lng = Inr urban" and c: "is_coastal_area lat lng = Inr coastal"
    and pc: "field ''primary_class'' lu =
             Some (JStr (if urban then ''urban''
                         else if coastal then ''coastal_mixed'' else ''agricultural''))"
    by blast
  from risks_given [OF u c, of t'] assms(2)
  have rs: "rs = (if urban then
                   [risk ''air_pollution'' ''moderate'' 0.82,
                    risk ''urban_heat_island'' ''high'' 0.78,
                    risk ''water_stress'' ''moderate'' 0.75]
                 else if coastal then
                   [risk ''sea_level_rise'' ''moderate'' 0.85,
                    risk ''coastal_erosion'' ''low'' 0.72,
                    risk ''storm_surge'' ''moderate'' 0.80]
                 else
                   [risk ''drought_risk'' ''low'' 0.88,
                    risk ''soil_degradation'' ''moderate'' 0.75,
                    risk ''biodiversity_loss'' ''low'' 0.82])"
    by simp
  show ?thesis
    unfolding pc rs u c by (simp add: risk_def)
qed

text \<open>Chennai is inside an urban and a coastal radius, and is urban.\<close>

theorem land_use_and_risks_agree_witness:
  "is_urban_area (JFloat 13.0827) (JFloat 80.2707) = Inr True \<and>
   is_coastal_area (JFloat 13.0827) (JFloat 80.2707) = Inr True \<and>
   assess_environmental_risks (JFloat 13.0827) (JFloat 80.2707) (JStr ''general'') =
     Inr [risk ''air_pollution'' ''moderate'' 0.82,
          risk ''urban_heat_island'' ''high'' 0.78,
          risk ''water_stress'' ''moderate'' 0.75] \<and>
   (\<exists>lu. fst (simulate_land_use_classification (JFloat 13.0827) (JFloat 80.2707) (JStr ''general'')
             (initial_world (\<lambda>n. 0))) = Inr lu \<and>
         field ''primary_class'' lu = Some (JStr ''urban'') \<and>
         field ''primary_class'' lu \<noteq> Some (JStr ''coastal_mixed''))"
proof -
  let ?lat = "JFloat 13.0827" and ?lng = "JFloat 80.2707"
  have "num_of ?lat = Inr 13.0827" and "num_of ?lng = Inr 80.2707"
    by simp_all
  from area_in_range [OF this]
  have u: "is_urban_area ?lat ?lng = Inr True" and c: "is_coastal_area ?lat ?lng = Inr True"
    by (simp_all add: urban_centers_def coastal_regions_def)
  from risks_given [OF u c, of "JStr ''general''"]
  have rs: "assess_environmental_risks ?lat ?lng (JStr ''general'') =
     Inr [risk ''air_pollution'' ''moderate'' 0.82,
          risk ''urban_heat_island'' ''high'' 0.78,
          risk ''water_stress'' ''moderate'' 0.75]"
    by (simp only: if_True)
  obtain lu where
    lu: "fst (simulate_land_use_classification ?lat ?lng (JStr ''general'')
               (initial_world (\<lambda>n. 0))) = Inr lu"
    using land_use_returns [OF u c] by blast
  from land_use_and_risks_agree [OF lu rs] u c lu rs show ?thesis
    by auto
qed

subsection \<open>Vegetation health\<close>

lemma vegetation_fields:
  "field ''health_category'' (fst (simulate_vegetation_health_analysis sd t s)) =
     Some (JStr (categorize_vegetation_health (fst (uniform 0.3 0.8 s))))"
  "field ''stress_indicators'' (fst (simulate_vegetation_health_analysis sd t s)) =
     Some (JObj
       [(''drought_stress'',
           JStr (if fst (uniform 0.3 0.8 s) > 0.6 then ''low'' else ''moderate'')),
        (''disease_pressure'', JStr (fst (choice [''low'', ''moderate''] (snd (uniform 0.3 0.8 s))))),
        (''nutrient_status'',
           JStr (fst (choice [''adequate'', ''deficient'']
                  (snd (choice [''low'', ''moderate''] (snd (uniform 0.3 0.8 s)))))))])"
  "field ''recommendations'' (fst (simulate_vegetation_health_analysis sd t s)) =
     Some (JArr (map JStr (generate_vegetation_recommendations (fst (uniform 0.3 0.8 s)) t)))"
  by (simp_all add: simulate_vegetation_health_analysis_def split_beta)

lemma base_ndvi_range:
  assumes "0 \<le> rng s 0" and "rng s 0 < 1"
  shows "0.3 \<le> fst (uniform 0.3 0.8 s)" and "fst (uniform 0.3 0.8 s) < 0.8"
  using assms by (simp_all add: uniform_def)

text \<open>
  Claim C10 fails as stated: the sample 0 is in \<open>[0, 1)\<close> and gives
  \<open>base_ndvi = 0.3\<close>, which is not above the threshold 0.3, so the category is "poor".
\<close>

theorem vegetation_poor_at_lower_end:
  "0 \<le> rng (initial_world (\<lambda>n. 0)) 0 \<and> rng (initial_world (\<lambda>n. 0)) 0 < 1 \<and>
   fst (uniform 0.3 0.8 (initial_world (\<lambda>n. 0))) = 0.3 \<and>
   field ''health_category''
     (fst (simulate_vegetation_health_analysis (JObj []) (JStr ''general'')
        (initial_world (\<lambda>n. 0)))) = Some (JStr ''poor'')"
  by (simp add: vegetation_fields categorize_vegetation_health_def uniform_def initial_world_def)

text \<open>
  Claim C10, amended. For a sample in \<open>[0, 1)\<close>, \<open>base_ndvi\<close> lies in \<open>[0.3, 0.8)\<close>;
  the health category is the one \<open>categorize_vegetation_health\<close> gives: moderate, good or
  excellent when \<open>base_ndvi > 0.3\<close>, poor when it is exactly 0.3, never very_poor;
  \<open>drought_stress\<close> is "low" exactly when \<open>base_ndvi > 0.6\<close>; and
  \<open>generate_vegetation_recommendations\<close> returns three recommendations on every input.
\<close>

theorem vegetation_health_ranges:
  assumes "0 \<le> rng s 0" and "rng s 0 < 1"
  shows "0.3 \<le> fst (uniform 0.3 0.8 s) \<and> fst (uniform 0.3 0.8 s) < 0.8 \<and>
         field ''health_category'' (fst (simulate_vegetation_health_analysis sd t s)) =
           Some (JStr (categorize_vegetation_health (fst (uniform 0.3 0.8 s)))) \<and>
         (0.3 < fst (uniform 0.3 0.8 s) \<longrightarrow>
            categorize_vegetation_health (fst (uniform 0.3 0.8 s)) \<in>
              {''moderate'', ''good'', ''excellent''}) \<and>
         (fst (uniform 0.3 0.8 s) = 0.3 \<longrightarrow>
            categorize_vegetation_health (fst (uniform 0.3 0.8 s)) = ''poor'') \<and>
         categorize_vegetation_health (fst (uniform 0.3 0.8 s)) \<noteq> ''very_poor'' \<and>
         (\<exists>si. field ''stress_indicators'' (fst (simulate_vegetation_health_analysis sd t s)) =
                 Some si \<and>
               (field ''drought_stress'' si = Some (JStr ''low'')) =
                 (fst (uniform 0.3 0.8 s) > 0.6)) \<and>
         field ''recommendations'' (fst (simulate_vegetation_health_analysis sd t s)) =
           Some (JArr (map JStr
             (generate_vegetation_recommendations (fst (uniform 0.3 0.8 s)) t))) \<and>
         length (generate_vegetation_recommendations ndvi t') = 3"
proof -
  note range = base_ndvi_range [OF assms]
  have "categorize_vegetation_health (fst (uniform 0.3 0.8 s)) \<noteq> ''very_poor''"
    using range(1) by (simp add: categorize_vegetation_health_def)
  moreover have "length (generate_vegetation_recommendations ndvi t') = 3"
    by (simp add: generate_vegetation_recommendations_def)
  moreover have "0.3 < fst (uniform 0.3 0.8 s) \<longrightarrow>
            categorize_vegetation_health (fst (uniform 0.3 0.8 s)) \<in>
              {''moderate'', ''good'', ''excellent''}"
    by (simp add: categorize_vegetation_health_def)
  moreover have "fst (uniform 0.3 0.8 s) = 0.3 \<longrightarrow>
            categorize_vegetation_health (fst (uniform 0.3 0.8 s)) = ''poor''"
    by (simp add: categorize_vegetation_health_def)
  ultimately show ?thesis
    using range by (simp add: vegetation_fields)
qed

text \<open>The sample 1/2 gives \<open>base_ndvi = 0.55\<close> and the category "good".\<close>

theorem vegetation_health_ranges_witness:
  "0 \<le> rng (initial_world (\<lambda>n. 1 / 2)) 0 \<and> rng (initial_world (\<lambda>n. 1 / 2)) 0 < 1 \<and>
   fst (uniform 0.3 0.8 (initial_world (\<lambda>n. 1 / 2))) = 0.55 \<and>
   field ''health_category''
     (fst (simulate_vegetation_health_analysis (JObj []) (JStr ''general'')
        (initial_world (\<lambda>n. 1 / 2)))) = Some (JStr ''good'') \<and>
   length (generate_vegetation_recommendations 0.55 (JStr ''general'')) = 3"
proof -
  have r: "0 \<le> rng (initial_world (\<lambda>n. 1 / 2)) 0" "rng (initial_world (\<lambda>n. 1 / 2)) 0 < 1"
    by (simp_all add: initial_world_def)
  have b: "fst (uniform 0.3 0.8 (initial_world (\<lambda>n. 1 / 2))) = 0.55"
    by (simp add: uniform_def initial_world_def)
  from vegetation_health_ranges [OF r, of "JObj []" "JStr ''general''" "0.55" "JStr ''general''"]
    r b show ?thesis
    by (simp add: categorize_vegetation_health_def)
qed

subsection \<open>Further facts on returning and raising\<close>

text \<open>The two functions return on the same coordinates.\<close>

lemma land_use_and_risks_return_together:
  "(\<exists>lu. fst (simulate_land_use_classification lat lng t s) = Inr lu) =
   (\<exists>rs. assess_environmental_risks lat lng t' = Inr rs)"
proof
  assume "\<exists>lu. fst (simulate_land_use_classification lat lng t s) = Inr lu"
  then obtain urban coastal where
    "is_urban_area lat lng = Inr urban" "is_coastal_area lat lng = Inr coastal"
    using land_use_result by blast
  from risks_given [OF this] show "\<exists>rs. assess_environmental_risks lat lng t' = Inr rs"
    by blast
next
  assume "\<exists>rs. assess_environmental_risks lat lng t' = Inr rs"
  then obtain rs where rs: "assess_environmental_risks lat lng t' = Inr rs"
    by blast
  then obtain urban where u: "is_urban_area lat lng = Inr urban"
    by (cases "is_urban_area lat lng") (simp_all add: assess_environmental_risks_def)
  have "\<exists>coastal. is_coastal_area lat lng = Inr coastal"
  proof (cases urban)
    case True
    with u show ?thesis by (simp add: urban_then_coastal_returns)
  next
    case False
    with rs u show ?thesis
      by (cases "is_coastal_area lat lng") (simp_all add: assess_environmental_risks_def)
  qed
  with u show "\<exists>lu. fst (simulate_land_use_classification lat lng t s) = Inr lu"
    using land_use_returns by blast
qed

text \<open>A body that cannot be parsed: \<^verbatim>\<open>request.get_json()\<close> raises, and the answer is 500.\<close>

lemma get_json_raises:
  "fst (analyze_geospatial (Inl e) s) =
     (500, JObj [(''error'', JStr ''Analysis failed''),
                 (''message'', JStr (exc_text s e)),
                 (''fallback'', JBool True)])"
  by (simp add: analyze_geospatial_def analyze_geospatial_try_def)

text \<open>A request with a body and a query that is not a string is answered with 500.\<close>

lemma query_not_a_string:
  assumes "truthy (JObj kvs)" and "map_of kvs ''query'' = Some (JInt n)"
  shows "fst (fst (analyze_geospatial (Inr (JObj kvs)) s)) = 500"
  using assms
  by (simp add: analyze_geospatial_def analyze_geospatial_try_def split: option.splits)

subsection \<open>Running the model\<close>

text \<open>
  The distance test without the square root, for evaluation: the loop as code equations.
\<close>

lemma distance_test:
  fixes a b radius :: real
  shows "((a ^ 2 + b ^ 2) powr (1 / 2) * 111 \<le> radius) =
         (0 \<le> radius \<and> (a ^ 2 + b ^ 2) * 12321 \<le> radius ^ 2)"
proof (cases "0 \<le> radius")
  case True
  then show ?thesis
    by (simp add: powr_half_sqrt dist_le_iff)
next
  case False
  have "0 \<le> sqrt (a ^ 2 + b ^ 2) * 111"
    by simp
  with False have "\<not> sqrt (a ^ 2 + b ^ 2) * 111 \<le> radius"
    by linarith
  with False show ?thesis
    by (simp add: powr_half_sqrt)
qed

lemma within_any_code [code]:
  "within_any lat lng [] = Inr False"
  "within_any lat lng ((center_lat, center_lng, radius) # rest) =
     (case py_sub lat center_lat of
        Inl e \<Rightarrow> Inl e
      | Inr dlat \<Rightarrow>
     (case py_square dlat of
        Inl e \<Rightarrow> Inl e
      | Inr dlat2 \<Rightarrow>
     (case py_sub lng center_lng of
        Inl e \<Rightarrow> Inl e
      | Inr dlng \<Rightarrow>
     (case py_square dlng of
        Inl e \<Rightarrow> Inl e
      | Inr dlng2 \<Rightarrow>
          if 0 \<le> radius \<and> (dlat2 + dlng2) * 12321 \<le> radius ^ 2 then Inr True
          else within_any lat lng rest))))"
proof -
  show "within_any lat lng [] = Inr False"
    by simp
  show "within_any lat lng ((center_lat, center_lng, radius) # rest) =
     (case py_sub lat center_lat of
        Inl e \<Rightarrow> Inl e
      | Inr dlat \<Rightarrow>
     (case py_square dlat of
        Inl e \<Rightarrow> Inl e
      | Inr dlat2 \<Rightarrow>
     (case py_sub lng center_lng of
        Inl e \<Rightarrow> Inl e
      | Inr dlng \<Rightarrow>
     (case py_square dlng of
        Inl e \<Rightarrow> Inl e
      | Inr dlng2 \<Rightarrow>
          if 0 \<le> radius \<and> (dlat2 + dlng2) * 12321 \<le> radius ^ 2 then Inr True
          else within_any lat lng rest))))"
    by (auto simp: Let_def distance_test dest!: py_square_result split: sum.splits)
qed

subsection \<open>Distance thresholding in any arithmetic\<close>

text \<open>The loop over the reals is the loop in the arithmetic of the reals.\<close>

lemma within_any_real_arith:
  "within_any lat lng cs = within_any_arith real_arith lat lng cs"
proof (induction cs)
  case Nil
  then show ?case by simp
next
  case (Cons c cs)
  obtain clat clng r where "c = (clat, clng, r)"
    by (cases c)
  with Cons show ?case
    by (simp add: distance_arith_def real_arith_def py_sub_def split: sum.splits)
qed

lemma area_real_arith:
  "is_urban_area lat lng = is_urban_area_arith real_arith lat lng"
  "is_coastal_area lat lng = is_coastal_area_arith real_arith lat lng"
  by (simp_all add: is_urban_area_def is_coastal_area_def is_urban_area_arith_def
      is_coastal_area_arith_def within_any_real_arith)









end
